theory Spec2Isabelle
  imports Main "HOL-Library.Code_Target_Nat"
begin

section \<open>Characters and strings\<close>

text \<open>
  A JavaScript string is modelled as the list of its UTF-16 code units, each a natural
  number; \<open>asc\<close> gives the string of an ASCII text. \<open>js_space\<close> is the white space of
  \<^verbatim>\<open>\s\<close> and \<^verbatim>\<open>trim()\<close>: the WhiteSpace and LineTerminator code points of
  ECMAScript (tab, line feed, vertical tab, form feed, carriage return, space, U+00A0,
  U+1680, U+2000 to U+200A, U+2028, U+2029, U+202F, U+205F, U+3000, U+FEFF).
  \<open>word_char\<close> is the class of \<^verbatim>\<open>\w\<close> and \<^verbatim>\<open>\b\<close>: the letters a to z and A to Z,
  the digits and the underscore.
\<close>

type_synonym jstring = "nat list"

definition asc :: "string \<Rightarrow> jstring" where
  "asc s = map of_char s"

definition dq :: nat where
  "dq = 34"

definition js_space :: "nat \<Rightarrow> bool" where
  "js_space c =
     (c \<in> set [9, 10, 11, 12, 13, 32, 160, 5760, 8232, 8233, 8239, 8287, 12288, 65279]
      \<or> (8192 \<le> c \<and> c \<le> 8202))"

definition word_char :: "nat \<Rightarrow> bool" where
  "word_char c = ((97 \<le> c \<and> c \<le> 122) \<or> (65 \<le> c \<and> c \<le> 90) \<or> (48 \<le> c \<and> c \<le> 57) \<or> c = 95)"

text \<open>
  \<^verbatim>\<open>toUpperCase()\<close> of a string of one code unit. Below U+0100 the mapping of Unicode is
  written out: a to z, the letters U+00E0 to U+00FE except the division sign, the micro
  sign (to U+039C), the sharp s (to \<^verbatim>\<open>SS\<close>) and y with diaeresis (to U+0178). From
  U+0100 on it is the parameter \<open>up\<close>, the mapping of the engine's Unicode tables.
\<close>

definition toUpperCase_unit :: "(nat \<Rightarrow> jstring) \<Rightarrow> nat \<Rightarrow> jstring" where
  "toUpperCase_unit up c =
     (if 97 \<le> c \<and> c \<le> 122 then [c - 32]
      else if c < 128 then [c]
      else if c = 181 then [924]
      else if c = 223 then [83, 83]
      else if (224 \<le> c \<and> c \<le> 246) \<or> (248 \<le> c \<and> c \<le> 254) then [c - 32]
      else if c = 255 then [376]
      else if c < 256 then [c]
      else up c)"

text \<open>
  The canonical form of a code unit under the \<^verbatim>\<open>i\<close> flag without the \<^verbatim>\<open>u\<close> flag:
  its upper case when that is one code unit, except that a code unit from 128 on never
  becomes one below 128.
\<close>

definition canonicalize :: "(nat \<Rightarrow> jstring) \<Rightarrow> nat \<Rightarrow> nat" where
  "canonicalize up c =
     (case toUpperCase_unit up c of
        [u] \<Rightarrow> if 128 \<le> c \<and> u < 128 then c else u
      | _ \<Rightarrow> c)"

fun startsWith :: "jstring \<Rightarrow> jstring \<Rightarrow> bool" where
  "startsWith s [] = True"
| "startsWith [] (p # ps) = False"
| "startsWith (c # cs) (p # ps) = (c = p \<and> startsWith cs ps)"

definition endsWith :: "jstring \<Rightarrow> jstring \<Rightarrow> bool" where
  "endsWith s p = startsWith (rev s) (rev p)"

fun str_includes :: "jstring \<Rightarrow> jstring \<Rightarrow> bool" where
  "str_includes [] p = (p = [])"
| "str_includes (c # cs) p = (startsWith (c # cs) p \<or> str_includes cs p)"

text \<open>\<^verbatim>\<open>s.substring(a, b)\<close>: the arguments are swapped when \<open>a > b\<close> and clamped to the length.\<close>

definition substring :: "jstring \<Rightarrow> nat \<Rightarrow> nat \<Rightarrow> jstring" where
  "substring s a b = take (max a b - min a b) (drop (min a b) s)"

definition trim :: "jstring \<Rightarrow> jstring" where
  "trim s = rev (dropWhile js_space (rev (dropWhile js_space s)))"

fun join :: "jstring \<Rightarrow> jstring list \<Rightarrow> jstring" where
  "join sep [] = []"
| "join sep [x] = x"
| "join sep (x # y # ys) = x @ sep @ join sep (y # ys)"

text \<open>\<^verbatim>\<open>name.charAt(0).toUpperCase() + name.slice(1)\<close>\<close>

definition capitalize :: "(nat \<Rightarrow> jstring) \<Rightarrow> jstring \<Rightarrow> jstring" where
  "capitalize up name = (case name of [] \<Rightarrow> [] | c # cs \<Rightarrow> toUpperCase_unit up c @ cs)"

text \<open>
  \<^verbatim>\<open>s.split(/\s+/)\<close>: the pieces between maximal runs of white space; a string that
  starts or ends with white space gives an empty first or last piece, and the empty
  string gives one empty piece. The flag records that the previous code unit was white
  space.
\<close>

fun split_go :: "jstring \<Rightarrow> bool \<Rightarrow> jstring \<Rightarrow> jstring list" where
  "split_go cur insep [] = [cur]"
| "split_go cur insep (c # cs) =
     (if js_space c then (if insep then split_go cur True cs else cur # split_go [] True cs)
      else split_go (cur @ [c]) False cs)"

definition split_ws :: "jstring \<Rightarrow> jstring list" where
  "split_ws s = split_go [] False s"

section \<open>Regular expressions\<close>

text \<open>
  The regular expressions of the source are sequences of single-character items,
  greedy repetitions of a character class and word boundaries. \<open>rx_match\<close> is the
  backtracking matcher of ECMAScript on such a sequence: it returns the length of the
  first match in priority order at the head of the text, the code unit before the head
  being given for \<^verbatim>\<open>\b\<close>. The first argument is the canonical form under which code
  units are compared: the identity without the \<^verbatim>\<open>i\<close> flag, \<open>canonicalize\<close> with it.
  A class matches a code unit when one of its members has the same canonical form.
\<close>

datatype cls = Lit nat | Except nat | WordCls | IdentCls

datatype item = One cls | Star cls | Plus cls | Boundary

definition word_units :: jstring where
  "word_units = asc ''abcdefghijklmnopqrstuvwxyzABCDEFGHIJKLMNOPQRSTUVWXYZ0123456789_''"

fun cls_ok :: "(nat \<Rightarrow> nat) \<Rightarrow> cls \<Rightarrow> nat \<Rightarrow> bool" where
  "cls_ok canon (Lit a) x = (canon a = canon x)"
| "cls_ok canon (Except a) x = (canon a \<noteq> canon x)"
| "cls_ok canon WordCls x = list_ex (\<lambda>a. canon a = canon x) word_units"
| "cls_ok canon IdentCls x = list_ex (\<lambda>a. canon a = canon x) (word_units @ asc ''-'')"

definition is_word_opt :: "nat option \<Rightarrow> bool" where
  "is_word_opt p = (case p of None \<Rightarrow> False | Some c \<Rightarrow> word_char c)"

definition head_opt :: "jstring \<Rightarrow> nat option" where
  "head_opt s = (case s of [] \<Rightarrow> None | c # cs \<Rightarrow> Some c)"

fun rx_match :: "(nat \<Rightarrow> nat) \<Rightarrow> item list \<Rightarrow> nat option \<Rightarrow> jstring \<Rightarrow> nat option" where
  "rx_match canon [] p s = Some 0"
| "rx_match canon (One c # r) p [] = None"
| "rx_match canon (One c # r) p (x # xs) =
     (if cls_ok canon c x then map_option Suc (rx_match canon r (Some x) xs) else None)"
| "rx_match canon (Star c # r) p [] = rx_match canon r p []"
| "rx_match canon (Star c # r) p (x # xs) =
     (if cls_ok canon c x
      then (case rx_match canon (Star c # r) (Some x) xs of
              Some n \<Rightarrow> Some (Suc n)
            | None \<Rightarrow> rx_match canon r p (x # xs))
      else rx_match canon r p (x # xs))"
| "rx_match canon (Plus c # r) p [] = None"
| "rx_match canon (Plus c # r) p (x # xs) =
     (if cls_ok canon c x then map_option Suc (rx_match canon (Star c # r) (Some x) xs) else None)"
| "rx_match canon (Boundary # r) p s =
     (if is_word_opt p \<noteq> is_word_opt (head_opt s) then rx_match canon r p s else None)"

text \<open>The leftmost match in a text: its offset and its length.\<close>

fun rx_search ::
  "(nat \<Rightarrow> nat) \<Rightarrow> item list \<Rightarrow> nat option \<Rightarrow> jstring \<Rightarrow> (nat \<times> nat) option" where
  "rx_search canon r p [] = map_option (Pair 0) (rx_match canon r p [])"
| "rx_search canon r p (x # xs) =
     (case rx_match canon r p (x # xs) of
        Some n \<Rightarrow> Some (0, n)
      | None \<Rightarrow> map_option (\<lambda>(i, n). (Suc i, n)) (rx_search canon r (Some x) xs))"

definition char_before :: "jstring \<Rightarrow> nat \<Rightarrow> nat option" where
  "char_before s pos = (if pos = 0 then None else Some (s ! (pos - 1)))"

text \<open>
  \<^verbatim>\<open>regex.exec(s)\<close> of a global expression whose \<^verbatim>\<open>lastIndex\<close> is \<open>pos\<close>: the index
  and the length of the leftmost match that starts at \<open>pos\<close> or later.
\<close>

definition rx_exec ::
  "(nat \<Rightarrow> nat) \<Rightarrow> item list \<Rightarrow> jstring \<Rightarrow> nat \<Rightarrow> (nat \<times> nat) option" where
  "rx_exec canon r s pos =
     (if length s < pos then None
      else map_option (\<lambda>(i, n). (pos + i, n)) (rx_search canon r (char_before s pos) (drop pos s)))"

definition lits :: "jstring \<Rightarrow> item list" where
  "lits s = map (\<lambda>c. One (Lit c)) s"

lemma rx_match_le: "rx_match canon r p s = Some n \<Longrightarrow> n \<le> length s"
  by (induction canon r p s arbitrary: n rule: rx_match.induct)
     (auto split: if_splits option.splits)

lemma rx_search_le: "rx_search canon r p s = Some (i, n) \<Longrightarrow> i + n \<le> length s"
  by (induction canon r p s arbitrary: i n rule: rx_search.induct)
     (auto split: option.splits dest: rx_match_le)

lemma rx_search_One_pos: "rx_search canon (One c # r) p s = Some (i, n) \<Longrightarrow> 0 < n"
  by (induction canon "One c # r" p s arbitrary: i n rule: rx_search.induct)
     (auto split: option.splits if_splits)

lemma rx_exec_bounds:
  assumes "rx_exec canon r s pos = Some (i, n)"
  shows "pos \<le> i" and "i + n \<le> length s" and "pos \<le> length s"
  using assms by (auto simp: rx_exec_def split: if_splits dest!: rx_search_le)

lemma rx_exec_One_pos: "rx_exec canon (One c # r) s pos = Some (i, n) \<Longrightarrow> 0 < n"
  by (auto simp: rx_exec_def split: if_splits dest: rx_search_One_pos)

text \<open>
  \<^verbatim>\<open>s.matchAll(regex)\<close>: the successive matches from \<open>pos\<close> on; after an empty match
  the search resumes one code unit further.
\<close>

function rx_matchAll ::
  "(nat \<Rightarrow> nat) \<Rightarrow> item list \<Rightarrow> jstring \<Rightarrow> nat \<Rightarrow> (nat \<times> nat) list" where
  "rx_matchAll canon r s pos =
     (case rx_exec canon r s pos of
        None \<Rightarrow> []
      | Some (i, n) \<Rightarrow> (i, n) # rx_matchAll canon r s (if n = 0 then i + 1 else i + n))"
  by pat_completeness auto
termination
proof (relation "measure (\<lambda>(canon, r, s, pos). length s + 1 - pos)")
  fix canon r s pos x i n
  assume "rx_exec canon r s pos = Some x" and "(i, n) = x"
  then have e: "rx_exec canon r s pos = Some (i, n)"
    by simp
  from rx_exec_bounds [OF e]
  show "((canon, r, s, if n = 0 then i + 1 else i + n), canon, r, s, pos)
          \<in> measure (\<lambda>(canon, r, s, pos). length s + 1 - pos)"
    by auto
qed simp

declare rx_matchAll.simps [simp del]

section \<open>Objects used as dictionaries\<close>

text \<open>A thrown value with its \<^verbatim>\<open>message\<close>.\<close>

record js_error =
  message :: "jstring option"

text \<open>
  \<^verbatim>\<open>blockInstances\<close> is an object literal \<^verbatim>\<open>{}\<close> with string values: the list of its
  own properties in the order in which \<^verbatim>\<open>Object.keys\<close> enumerates them, which is first
  the keys that are array indices, in ascending order, then the other keys in the order
  of their creation. Reading a key that is not an own property goes to
  \<^verbatim>\<open>Object.prototype\<close>, whose members are all truthy.
\<close>

type_synonym js_obj = "(jstring \<times> jstring) list"

definition decimal :: "jstring \<Rightarrow> nat" where
  "decimal k = foldl (\<lambda>n c. 10 * n + (c - 48)) 0 k"

text \<open>
  An array index is the decimal numeral, without a leading zero, of a number below
  \<open>2\<^sup>3\<^sup>2 - 1\<close>.
\<close>

definition array_index :: "jstring \<Rightarrow> nat option" where
  "array_index k =
     (case k of
        [] \<Rightarrow> None
      | c # cs \<Rightarrow>
          if list_all (\<lambda>x. 48 \<le> x \<and> x \<le> 57) (c # cs) \<and> (c \<noteq> 48 \<or> cs = [])
             \<and> decimal (c # cs) < 4294967295
          then Some (decimal (c # cs)) else None)"

definition object_prototype_keys :: "jstring list" where
  "object_prototype_keys =
     map asc
       [''constructor'', ''__defineGetter__'', ''__defineSetter__'', ''hasOwnProperty'',
        ''__lookupGetter__'', ''__lookupSetter__'', ''isPrototypeOf'', ''propertyIsEnumerable'',
        ''toString'', ''valueOf'', ''__proto__'', ''toLocaleString'']"

datatype js_val = Undefined | Str jstring | Inherited jstring

text \<open>\<^verbatim>\<open>obj[key]\<close>, and its truth value: a string is truthy unless it is empty.\<close>

definition get_prop :: "js_obj \<Rightarrow> jstring \<Rightarrow> js_val" where
  "get_prop obj k =
     (case map_of obj k of
        Some v \<Rightarrow> Str v
      | None \<Rightarrow> if k \<in> set object_prototype_keys then Inherited k else Undefined)"

fun truthy :: "js_val \<Rightarrow> bool" where
  "truthy Undefined = False"
| "truthy (Str v) = (v \<noteq> [])"
| "truthy (Inherited k) = True"

definition truthy_prop :: "js_obj \<Rightarrow> jstring \<Rightarrow> bool" where
  "truthy_prop obj k = truthy (get_prop obj k)"

text \<open>A value that is a string or \<^verbatim>\<open>null\<close>/\<^verbatim>\<open>undefined\<close>, used as a condition.\<close>

definition truthy_text :: "jstring option \<Rightarrow> bool" where
  "truthy_text c = (case c of None \<Rightarrow> False | Some v \<Rightarrow> v \<noteq> [])"

text \<open>
  Creating the own property \<open>k\<close>: an array index goes before the first key that is not
  an array index or is a larger one, any other key goes to the end.
\<close>

fun insert_own :: "jstring \<Rightarrow> jstring \<Rightarrow> js_obj \<Rightarrow> js_obj" where
  "insert_own k v [] = [(k, v)]"
| "insert_own k v ((k', v') # r) =
     (case array_index k of
        None \<Rightarrow> (k', v') # insert_own k v r
      | Some n \<Rightarrow>
          (case array_index k' of
             None \<Rightarrow> (k, v) # (k', v') # r
           | Some n' \<Rightarrow>
               if n < n' then (k, v) # (k', v') # r else (k', v') # insert_own k v r))"

text \<open>Writing an own property: an existing key keeps its place.\<close>

definition set_own :: "jstring \<Rightarrow> jstring \<Rightarrow> js_obj \<Rightarrow> js_obj" where
  "set_own k v obj =
     (if k \<in> set (map fst obj)
      then map (\<lambda>(k', v'). if k' = k then (k', v) else (k', v')) obj
      else insert_own k v obj)"

text \<open>\<^verbatim>\<open>obj[key] = value\<close>; assigning to \<^verbatim>\<open>__proto__\<close> a string creates no property.\<close>

definition set_prop :: "js_obj \<Rightarrow> jstring \<Rightarrow> jstring \<Rightarrow> js_obj" where
  "set_prop obj k v = (if k = asc ''__proto__'' then obj else set_own k v obj)"

section \<open>Block content extractor\<close>

text \<open>
  \<^verbatim>\<open>new RegExp(`<div([^>]*class="[^"]*\\b${blockName}\\b[^"]*"[^>]*)>`, 'gi')\<close>.
  The block name is spliced into the source of the expression as it is. A name without
  a syntax character of regular expressions (\<open>literal_name\<close>) stands there for the
  sequence of its code units, and \<open>openTagRegex\<close> is the expression for such a name.
  Group 1 is then the match without its first four code units and its last one.
\<close>

definition syntax_units :: jstring where
  "syntax_units = asc ''^$.*+?()[]{}|'' @ [92]"

definition literal_name :: "jstring \<Rightarrow> bool" where
  "literal_name blockName = list_all (\<lambda>c. c \<notin> set syntax_units) blockName"

definition openTagRegex :: "jstring \<Rightarrow> item list" where
  "openTagRegex blockName =
     lits (asc ''<div'') @ [Star (Except 62)] @ lits (asc ''class='') @ [One (Lit dq)]
     @ [Star (Except dq), Boundary] @ lits blockName
     @ [Boundary, Star (Except dq), One (Lit dq), Star (Except 62), One (Lit 62)]"

text \<open>\<^verbatim>\<open>/<div[^>]*>/g\<close> and \<^verbatim>\<open>/<\/div>/g\<close>; 62 is the code unit of \<^verbatim>\<open>>\<close>.\<close>

definition divOpenRegex :: "item list" where
  "divOpenRegex = lits (asc ''<div'') @ [Star (Except 62), One (Lit 62)]"

definition divCloseRegex :: "item list" where
  "divCloseRegex = lits (asc ''</div>'')"

text \<open>\<^verbatim>\<open>/class="([^"]*)"/\<close>; group 1 is the match without its first seven code units and its last one.\<close>

definition classAttrRegex :: "item list" where
  "classAttrRegex = lits (asc ''class='') @ [One (Lit dq), Star (Except dq), One (Lit dq)]"

text \<open>
  The inner loop of \<^verbatim>\<open>parseBlockInstances\<close>: from \<open>pos\<close> at depth \<open>depth\<close>, the
  index of the close tag at which the depth reaches zero, or \<open>None\<close> when the loop ends
  without one.
\<close>

function scan_close :: "jstring \<Rightarrow> nat \<Rightarrow> nat \<Rightarrow> nat option" where
  "scan_close html depth pos =
     (if 0 < depth \<and> pos < length html then
        (case rx_exec id divCloseRegex html pos of
           None \<Rightarrow> None
         | Some (ci, cl) \<Rightarrow>
             (case rx_exec id divOpenRegex html pos of
                None \<Rightarrow>
                  (if depth - 1 = 0 then Some ci else scan_close html (depth - 1) (ci + cl))
              | Some (oi, ol) \<Rightarrow>
                  (if oi < ci then scan_close html (depth + 1) (oi + ol)
                   else if depth - 1 = 0 then Some ci
                   else scan_close html (depth - 1) (ci + cl))))
      else None)"
  by pat_completeness auto
termination
proof (relation "measure (\<lambda>(html, depth, pos). length html - pos)")
  fix html :: jstring and depth pos :: nat and x ci cl
  assume "rx_exec id divCloseRegex html pos = Some x" and "(ci, cl) = x"
    and "0 < depth \<and> pos < length html"
  then have c: "rx_exec id (One (Lit 60) # tl divCloseRegex) html pos = Some (ci, cl)"
    and p: "pos < length html"
    by (simp_all add: divCloseRegex_def lits_def asc_def)
  from rx_exec_bounds(1) [OF c] rx_exec_One_pos [OF c] p
  show "((html, depth - 1, ci + cl), html, depth, pos)
          \<in> measure (\<lambda>(html, depth, pos). length html - pos)"
    by simp
  then show "((html, depth - 1, ci + cl), html, depth, pos)
          \<in> measure (\<lambda>(html, depth, pos). length html - pos)" .
next
  fix html :: jstring and depth pos :: nat and y oi ol
  assume "rx_exec id divOpenRegex html pos = Some y" and "(oi, ol) = y"
    and "0 < depth \<and> pos < length html"
  then have c: "rx_exec id (One (Lit 60) # tl divOpenRegex) html pos = Some (oi, ol)"
    and p: "pos < length html"
    by (simp_all add: divOpenRegex_def lits_def asc_def)
  from rx_exec_bounds(1) [OF c] rx_exec_One_pos [OF c] p
  show "((html, depth + 1, oi + ol), html, depth, pos)
          \<in> measure (\<lambda>(html, depth, pos). length html - pos)"
    by simp
qed simp

declare scan_close.simps [simp del]

text \<open>The class tokens of the first \<^verbatim>\<open>class="..."\<close> in the attributes, and the variant.\<close>

definition match_classes :: "jstring \<Rightarrow> jstring list" where
  "match_classes attributes =
     (case rx_exec id classAttrRegex attributes 0 of
        None \<Rightarrow> []
      | Some (i, n) \<Rightarrow> split_ws (substring attributes (i + 7) (i + n - 1)))"

definition variant_of :: "jstring \<Rightarrow> jstring \<Rightarrow> jstring" where
  "variant_of blockName attributes =
     (case find (\<lambda>cls. cls \<noteq> blockName \<and> \<not> startsWith cls (blockName @ asc ''-''))
             (match_classes attributes) of
        None \<Rightarrow> []
      | Some c \<Rightarrow> c)"

text \<open>The body of the outer loop for the match of length \<open>len\<close> found at \<open>idx\<close>.\<close>

definition process_match :: "jstring \<Rightarrow> jstring \<Rightarrow> nat \<Rightarrow> nat \<Rightarrow> js_obj \<Rightarrow> js_obj" where
  "process_match html blockName idx len blockInstances =
     (let startPos = idx + len;
          attributes = substring html (idx + 4) (idx + len - 1);
          variant = variant_of blockName attributes
      in if truthy_prop blockInstances variant then blockInstances
         else (case scan_close html 1 startPos of
                 None \<Rightarrow> blockInstances
               | Some ci \<Rightarrow> set_prop blockInstances variant (trim (substring html startPos ci))))"

text \<open>
  The outer loop for a literal block name; \<open>up\<close> is the upper-case mapping of the
  engine from U+0100 on, which the \<^verbatim>\<open>i\<close> flag consults.
\<close>

function parse_loop ::
  "(nat \<Rightarrow> jstring) \<Rightarrow> jstring \<Rightarrow> jstring \<Rightarrow> nat \<Rightarrow> js_obj \<Rightarrow> js_obj" where
  "parse_loop up html blockName lastIndex blockInstances =
     (case rx_exec (canonicalize up) (openTagRegex blockName) html lastIndex of
        None \<Rightarrow> blockInstances
      | Some (idx, len) \<Rightarrow>
          parse_loop up html blockName (idx + len)
            (process_match html blockName idx len blockInstances))"
  by pat_completeness auto
termination
proof (relation "measure (\<lambda>(up, html, blockName, lastIndex, blockInstances).
                            length html + 1 - lastIndex)")
  fix up :: "nat \<Rightarrow> jstring" and html blockName :: jstring and lastIndex :: nat
    and blockInstances :: js_obj and x idx len
  assume "rx_exec (canonicalize up) (openTagRegex blockName) html lastIndex = Some x"
    and "(idx, len) = x"
  then have c: "rx_exec (canonicalize up) (One (Lit 60) # tl (openTagRegex blockName)) html
                  lastIndex = Some (idx, len)"
    by (simp add: openTagRegex_def lits_def asc_def)
  from rx_exec_bounds [OF c] rx_exec_One_pos [OF c]
  show "((up, html, blockName, idx + len, process_match html blockName idx len blockInstances),
          up, html, blockName, lastIndex, blockInstances)
          \<in> measure (\<lambda>(up, html, blockName, lastIndex, blockInstances).
                        length html + 1 - lastIndex)"
    by simp
qed simp

declare parse_loop.simps [simp del]

text \<open>
  \<^verbatim>\<open>parseBlockInstances(html, blockName)\<close>; \<open>Inl\<close> is a thrown error. For a block name
  with a syntax character the constructor builds another expression than
  \<open>openTagRegex\<close>, or throws a SyntaxError: what the function returns or throws then is
  the parameter \<open>other\<close>.
\<close>

definition parseBlockInstances ::
  "(jstring \<Rightarrow> jstring \<Rightarrow> js_error + js_obj) \<Rightarrow> (nat \<Rightarrow> jstring) \<Rightarrow> jstring \<Rightarrow> jstring
     \<Rightarrow> js_error + js_obj" where
  "parseBlockInstances other up html blockName =
     (if literal_name blockName then Inr (parse_loop up html blockName 0 [])
      else other html blockName)"

section \<open>Block analyzer\<close>

definition STRUCTURE_PATTERNS :: "(string \<times> jstring list) list" where
  "STRUCTURE_PATTERNS =
     [(''hasImage'', map asc [''image'', ''img'', ''picture'', ''photo'']),
      (''hasHeading'', map asc [''title'', ''heading'', ''headline'']),
      (''hasButton'', map asc [''button'', ''btn'', ''cta'', ''action'']),
      (''hasMultipleItems'', map asc [''item'', ''card'', ''column''])]"

definition patterns_of :: "string \<Rightarrow> jstring list" where
  "patterns_of feature = (case map_of STRUCTURE_PATTERNS feature of None \<Rightarrow> [] | Some ps \<Rightarrow> ps)"

record features =
  hasImage :: bool
  hasHeading :: bool
  hasButton :: bool
  hasMultipleItems :: bool
  isBEM :: bool

text \<open>\<^verbatim>\<open>classes.some(className => patterns.some(pattern => className.includes(pattern)))\<close>\<close>

definition some_class_includes :: "jstring list \<Rightarrow> jstring list \<Rightarrow> bool" where
  "some_class_includes patterns classes =
     list_ex (\<lambda>className. list_ex (\<lambda>pattern. str_includes className pattern) patterns) classes"

definition detectStructureFeatures :: "jstring list \<Rightarrow> features" where
  "detectStructureFeatures classes =
     \<lparr>hasImage = some_class_includes (patterns_of ''hasImage'') classes,
      hasHeading = some_class_includes (patterns_of ''hasHeading'') classes,
      hasButton = some_class_includes (patterns_of ''hasButton'') classes,
      hasMultipleItems = some_class_includes (patterns_of ''hasMultipleItems'') classes,
      isBEM = list_ex (\<lambda>c. str_includes c (asc ''__'') \<or> str_includes c (asc ''--'')) classes\<rparr>"

record block_structure = features +
  st_classes :: "jstring list"
  st_functionName :: "jstring option"

record analysis =
  an_blockName :: jstring
  an_description :: "jstring option"
  an_variants :: "jstring list"
  hasJS :: bool
  hasCSS :: bool
  an_structure :: block_structure

definition buildBlockFilePath :: "jstring \<Rightarrow> jstring \<Rightarrow> jstring" where
  "buildBlockFilePath blockName fileName = blockName @ asc ''/'' @ fileName"

text \<open>A \<^verbatim>\<open>Set\<close> filled in order and read back with \<^verbatim>\<open>Array.from\<close>.\<close>

definition set_add :: "'a \<Rightarrow> 'a list \<Rightarrow> 'a list" where
  "set_add x xs = (if x \<in> set xs then xs else xs @ [x])"

definition array_from_set :: "'a list \<Rightarrow> 'a list" where
  "array_from_set xs = foldl (\<lambda>acc x. set_add x acc) [] xs"

text \<open>\<^verbatim>\<open>/\.([a-zA-Z0-9_-]+)/g\<close>; group 1 is the match without its first code unit.\<close>

definition classRegex :: "item list" where
  "classRegex = lits (asc ''.'') @ [Plus IdentCls]"

definition css_classes :: "jstring \<Rightarrow> jstring list" where
  "css_classes cssContent =
     array_from_set
       (map (\<lambda>(i, n). substring cssContent (i + 1) (i + n))
          (rx_matchAll id classRegex cssContent 0))"

text \<open>
  \<^verbatim>\<open>new RegExp(`\\.${blockName}\\.(\\w+)`, 'g')\<close>, the block name read as literal
  characters; group 1 is the match after the two dots and the block name.
\<close>

definition variantPattern :: "jstring \<Rightarrow> item list" where
  "variantPattern blockName = lits (asc ''.'' @ blockName @ asc ''.'') @ [Plus WordCls]"

definition css_variants :: "jstring \<Rightarrow> jstring \<Rightarrow> jstring list" where
  "css_variants blockName cssContent =
     array_from_set
       (filter (\<lambda>v. v \<noteq> blockName)
          (map (\<lambda>(i, n). substring cssContent (i + length blockName + 2) (i + n))
             (rx_matchAll id (variantPattern blockName) cssContent 0)))"

text \<open>
  \<^verbatim>\<open>analyzeBlock(source, blockName)\<close>. The source is given by its
  \<^verbatim>\<open>getFileContent\<close>, which returns the text or \<^verbatim>\<open>null\<close>. The fields of the
  result and of its \<^verbatim>\<open>structure\<close> carry the prefixes \<open>an_\<close> and \<open>st_\<close>. The two matches on the
  script that only fill \<^verbatim>\<open>description\<close> and \<^verbatim>\<open>functionName\<close> are the parameters
  \<open>jsdocMatch\<close> and \<open>exportMatch\<close>, each giving its group 1 when the expression matches.
\<close>

definition analyzeBlock ::
  "(jstring \<Rightarrow> jstring option) \<Rightarrow> (jstring \<Rightarrow> jstring option) \<Rightarrow> (jstring \<Rightarrow> jstring option)
     \<Rightarrow> jstring \<Rightarrow> analysis" where
  "analyzeBlock jsdocMatch exportMatch getFileContent blockName =
     (let result =
            \<lparr>an_blockName = blockName, an_description = None, an_variants = [], hasJS = False,
             hasCSS = False,
             an_structure =
               \<lparr>hasImage = False, hasHeading = False, hasButton = False,
                hasMultipleItems = False, isBEM = False, st_classes = [], st_functionName = None\<rparr>\<rparr>;
          jsContent = getFileContent (buildBlockFilePath blockName (blockName @ asc ''.js''));
          result =
            (case jsContent of
               None \<Rightarrow> result
             | Some js \<Rightarrow>
                 if js \<noteq> [] then
                   result\<lparr>hasJS := True,
                          an_description :=
                            (case jsdocMatch js of
                               None \<Rightarrow> an_description result
                             | Some d \<Rightarrow> Some d),
                          an_structure :=
                            (an_structure result)\<lparr>st_functionName :=
                              (case exportMatch js of
                                 None \<Rightarrow> st_functionName (an_structure result)
                               | Some f \<Rightarrow> Some f)\<rparr>\<rparr>
                 else result);
          cssContent = getFileContent (buildBlockFilePath blockName (blockName @ asc ''.css''))
      in (case cssContent of
            None \<Rightarrow> result
          | Some css \<Rightarrow>
              if css \<noteq> [] then
                (let cs = css_classes css; f = detectStructureFeatures cs
                 in result\<lparr>hasCSS := True,
                           an_variants := css_variants blockName css,
                           an_structure :=
                             (an_structure result)\<lparr>st_classes := cs,
                               hasImage := hasImage f, hasHeading := hasHeading f,
                               hasButton := hasButton f,
                               hasMultipleItems := hasMultipleItems f, isBEM := isBEM f\<rparr>\<rparr>)
              else result))"



section \<open>Template generator\<close>

text \<open>
  \<^verbatim>\<open>generateAutoDescription(blockName, structure, variants)\<close>. The structure is an
  object whose absent flags read as false; the variants are an array or \<^verbatim>\<open>null\<close>.
  \<open>up\<close> is the upper-case mapping of the engine from U+0100 on.
\<close>

definition generateAutoDescription ::
  "(nat \<Rightarrow> jstring) \<Rightarrow> jstring \<Rightarrow> 'a features_scheme \<Rightarrow> jstring list option \<Rightarrow> jstring" where
  "generateAutoDescription up blockName structure variants =
     (let parts = [];
          parts =
            (if hasMultipleItems structure then parts @ [asc ''Multi-item layout''] else parts);
          content = [];
          content = (if hasImage structure then content @ [asc ''images''] else content);
          content = (if hasHeading structure then content @ [asc ''headings''] else content);
          content = (if hasButton structure then content @ [asc ''buttons''] else content);
          parts =
            (if 0 < length content then parts @ [asc ''with '' @ join (asc '', '') content]
             else parts);
          parts = (case variants of
                     None \<Rightarrow> parts
                   | Some vs \<Rightarrow>
                       if 0 < length vs then parts @ [asc ''Variants: '' @ join (asc '', '') vs]
                       else parts)
      in if 0 < length parts then join (asc '' '') parts
         else capitalize up blockName @ asc '' block'')"

text \<open>
  The text that a template literal makes of \<^verbatim>\<open>obj[key]\<close>. A member inherited from
  \<^verbatim>\<open>Object.prototype\<close> prints as the engine prints it, which is the parameter
  \<open>native\<close>.
\<close>

fun text_of :: "(jstring \<Rightarrow> jstring) \<Rightarrow> js_val \<Rightarrow> jstring" where
  "text_of native Undefined = asc ''undefined''"
| "text_of native (Str v) = v"
| "text_of native (Inherited k) = native k"

text \<open>\<^verbatim>\<open>blockContent?.[variant] || blockContent?.[''] || ''\<close>\<close>

definition content_for :: "(jstring \<Rightarrow> jstring) \<Rightarrow> js_obj option \<Rightarrow> jstring \<Rightarrow> jstring" where
  "content_for native blockContent variant =
     (case blockContent of
        None \<Rightarrow> []
      | Some obj \<Rightarrow>
          if truthy (get_prop obj variant) then text_of native (get_prop obj variant)
          else if truthy (get_prop obj []) then text_of native (get_prop obj [])
          else [])"

text \<open>One element of \<^verbatim>\<open>blockSections\<close>: the section of a variant.\<close>

definition block_section ::
  "(nat \<Rightarrow> jstring) \<Rightarrow> (jstring \<Rightarrow> jstring) \<Rightarrow> jstring \<Rightarrow> jstring \<Rightarrow> js_obj option \<Rightarrow> jstring
     \<Rightarrow> jstring" where
  \<open>block_section up native blockName autoDescription blockContent variant =
     (let capitalizedName = capitalize up blockName;
          variantName =
            (if variant \<noteq> [] then capitalizedName @ asc '' ('' @ variant @ asc '')''
             else capitalizedName);
          classAttr = (if variant \<noteq> [] then asc '' '' @ variant else []);
          content = content_for native blockContent variant
      in asc ''    <div>\<newline>''
         @ asc ''      <div class="library-metadata">\<newline>''
         @ asc ''        <div>\<newline>''
         @ asc ''          <div>name</div>\<newline>''
         @ asc ''          <div>'' @ variantName @ asc ''</div>\<newline>''
         @ asc ''        </div>\<newline>''
         @ asc ''        <div>\<newline>''
         @ asc ''          <div>description</div>\<newline>''
         @ asc ''          <div>'' @ autoDescription @ asc ''</div>\<newline>''
         @ asc ''        </div>\<newline>''
         @ asc ''      </div>\<newline>''
         @ asc ''      <div class="'' @ blockName @ classAttr @ asc ''">\<newline>''
         @ content @ asc ''      </div>\<newline>''
         @ asc ''    </div>'')\<close>

text \<open>
  \<^verbatim>\<open>generateBlockTemplate(blockName, description, variants, structure, blockContent)\<close>:
  the list of its sections, and the document. \<open>None\<close> is \<^verbatim>\<open>null\<close> or an argument left
  out.
\<close>

definition blockSections ::
  "(nat \<Rightarrow> jstring) \<Rightarrow> (jstring \<Rightarrow> jstring) \<Rightarrow> jstring \<Rightarrow> jstring option \<Rightarrow> jstring list option
     \<Rightarrow> 'a features_scheme \<Rightarrow> js_obj option \<Rightarrow> jstring list" where
  "blockSections up native blockName description variants structure blockContent =
     (let autoDescription =
            (case description of
               None \<Rightarrow> generateAutoDescription up blockName structure variants
             | Some d \<Rightarrow>
                 if d \<noteq> [] then d else generateAutoDescription up blockName structure variants);
          variantsToGenerate =
            (case variants of None \<Rightarrow> [Nil] | Some vs \<Rightarrow> if 0 < length vs then vs else [Nil])
      in map (block_section up native blockName autoDescription blockContent) variantsToGenerate)"

definition generateBlockTemplate ::
  "(nat \<Rightarrow> jstring) \<Rightarrow> (jstring \<Rightarrow> jstring) \<Rightarrow> jstring \<Rightarrow> jstring option \<Rightarrow> jstring list option
     \<Rightarrow> 'a features_scheme \<Rightarrow> js_obj option \<Rightarrow> jstring" where
  "generateBlockTemplate up native blockName description variants structure blockContent =
     asc ''<body>\<newline>  <header></header>\<newline>  <main>\<newline>''
     @ join (asc ''\<newline>'')
         (blockSections up native blockName description variants structure blockContent)
     @ asc ''\<newline>  </main>\<newline>  <footer></footer>\<newline></body>''"

section \<open>Documents of the admin API\<close>

text \<open>
  The functions of this repository that the operations import from modules outside the
  analysed files are parameters of the model, collected in a record.
  \<^verbatim>\<open>daAdminRequest\<close> gives the text of the response or throws; \<^verbatim>\<open>JSON.parse\<close> on a
  quoted text gives a string or throws.
\<close>

record validation =
  valid :: bool
  error :: jstring

record deps =
  validateBlockName :: "jstring \<Rightarrow> validation"
  buildLibraryPath :: "jstring \<Rightarrow> jstring \<Rightarrow> jstring \<Rightarrow> jstring"
  LIBRARY_TYPES_BLOCKS :: jstring
  formatURL :: "jstring \<Rightarrow> jstring \<Rightarrow> jstring \<Rightarrow> jstring \<Rightarrow> jstring \<Rightarrow> jstring"
  buildContentUrl :: "jstring \<Rightarrow> jstring \<Rightarrow> jstring \<Rightarrow> jstring"
  daAdminRequest :: "jstring \<Rightarrow> js_error + jstring"
  JSON_parse :: "jstring \<Rightarrow> js_error + jstring"

record doc_check =
  doc_exists :: bool
  doc_path :: jstring
  doc_url :: jstring

text \<open>
  \<^verbatim>\<open>checkBlockDocExists(org, repo, blockName, baseFolder = 'library')\<close>; \<open>Inl\<close> is a
  thrown error. The fields of the result are \<^verbatim>\<open>exists\<close>, \<^verbatim>\<open>path\<close> and \<^verbatim>\<open>url\<close>.
\<close>

definition checkBlockDocExists ::
  "deps \<Rightarrow> jstring \<Rightarrow> jstring \<Rightarrow> jstring \<Rightarrow> jstring option \<Rightarrow> js_error + doc_check" where
  "checkBlockDocExists d org repo blockName baseFolder =
     (let validation = validateBlockName d blockName
      in if \<not> valid validation then Inl \<lparr>message = Some (error validation)\<rparr>
         else
           (let docPath =
                  buildLibraryPath d (LIBRARY_TYPES_BLOCKS d)
                    (case baseFolder of None \<Rightarrow> asc ''library'' | Some f \<Rightarrow> f) blockName;
                url = formatURL d (asc ''source'') org repo docPath (asc ''html'')
            in case daAdminRequest d url of
                 Inr response \<Rightarrow>
                   Inr \<lparr>doc_exists = True, doc_path = docPath,
                        doc_url = buildContentUrl d org repo docPath\<rparr>
               | Inl err \<Rightarrow>
                   if (case message err of None \<Rightarrow> False | Some m \<Rightarrow> str_includes m (asc ''404''))
                   then Inr \<lparr>doc_exists = False, doc_path = docPath,
                             doc_url = buildContentUrl d org repo docPath\<rparr>
                   else Inl err))"

definition fetchSourceDocument ::
  "deps \<Rightarrow> jstring \<Rightarrow> jstring \<Rightarrow> jstring \<Rightarrow> js_error + jstring" where
  "fetchSourceDocument d org repo sourcePath =
     (let url = formatURL d (asc ''source'') org repo sourcePath (asc ''html'')
      in case daAdminRequest d url of
           Inl err \<Rightarrow> Inl err
         | Inr result \<Rightarrow>
             if startsWith result [dq] \<and> endsWith result [dq] then JSON_parse d result
             else Inr result)"

text \<open>
  \<^verbatim>\<open>extractBlockContent(org, repo, sourcePaths, blockName)\<close>. The paths are absent, one
  string or an array; the result has \<^verbatim>\<open>content\<close> and \<^verbatim>\<open>sourceUsed\<close>, each
  \<^verbatim>\<open>null\<close> when nothing was found. \<open>try_paths\<close> is the loop. Its \<^verbatim>\<open>try\<close> block holds
  the fetch and the call of \<^verbatim>\<open>parseBlockInstances\<close>, and its \<^verbatim>\<open>catch\<close> goes on to
  the next path, whichever of the two has thrown.
\<close>

datatype source_paths = NoPaths | OnePath jstring | PathList "jstring list"

record extraction =
  content :: "js_obj option"
  sourceUsed :: "jstring option"

fun try_paths ::
  "deps \<Rightarrow> (jstring \<Rightarrow> jstring \<Rightarrow> js_error + js_obj) \<Rightarrow> (nat \<Rightarrow> jstring) \<Rightarrow> jstring \<Rightarrow> jstring
     \<Rightarrow> jstring \<Rightarrow> jstring list \<Rightarrow> extraction" where
  "try_paths d other up org repo blockName [] = \<lparr>content = None, sourceUsed = None\<rparr>"
| "try_paths d other up org repo blockName (sourcePath # paths) =
     (case fetchSourceDocument d org repo sourcePath of
        Inl err \<Rightarrow> try_paths d other up org repo blockName paths
      | Inr html \<Rightarrow>
          (case parseBlockInstances other up html blockName of
             Inl err \<Rightarrow> try_paths d other up org repo blockName paths
           | Inr c \<Rightarrow>
               if 0 < length c then \<lparr>content = Some c, sourceUsed = Some sourcePath\<rparr>
               else try_paths d other up org repo blockName paths))"

definition extractBlockContent ::
  "deps \<Rightarrow> (jstring \<Rightarrow> jstring \<Rightarrow> js_error + js_obj) \<Rightarrow> (nat \<Rightarrow> jstring) \<Rightarrow> jstring \<Rightarrow> jstring
     \<Rightarrow> source_paths \<Rightarrow> jstring \<Rightarrow> extraction" where
  "extractBlockContent d other up org repo sourcePaths blockName =
     (case sourcePaths of
        NoPaths \<Rightarrow> \<lparr>content = None, sourceUsed = None\<rparr>
      | OnePath p \<Rightarrow>
          if p = [] then \<lparr>content = None, sourceUsed = None\<rparr>
          else try_paths d other up org repo blockName [p]
      | PathList paths \<Rightarrow> try_paths d other up org repo blockName paths)"

section \<open>Content source resolution\<close>

text \<open>
  The arguments of the tools, the two kinds of source and the metadata returned with a
  source. \<open>detected\<close> is what \<^verbatim>\<open>await detectLocalBlocksDir()\<close> gives in the current
  directory (the path of its \<^verbatim>\<open>blocks\<close> directory, or \<^verbatim>\<open>null\<close>), and \<open>gitRemote\<close> what
  \<^verbatim>\<open>await detectGitRemote()\<close> gives.
\<close>

record github_config =
  gh_org :: jstring
  gh_repo :: jstring
  gh_branch :: "jstring option"
  gh_blocksPath :: "jstring option"

record source_args =
  github :: "github_config option"
  useLocal :: "bool option"
  localBlocksPath :: "jstring option"

record git_remote =
  git_org :: jstring
  git_repo :: jstring
  git_remote_url :: jstring

text \<open>
  The root of a local source is a path, or the promise that \<^verbatim>\<open>createBlockSource\<close>
  passes on when it calls \<^verbatim>\<open>detectLocalBlocksDir()\<close> without \<^verbatim>\<open>await\<close>.
\<close>

datatype blocks_root = Dir jstring | Pending

datatype block_source = LocalSource blocks_root | GitHubSource jstring jstring jstring jstring

datatype source_metadata = GithubMeta github_config | LocalMeta jstring "git_remote option"

definition or_default :: "jstring option \<Rightarrow> jstring \<Rightarrow> jstring" where
  "or_default v dflt = (case v of None \<Rightarrow> dflt | Some x \<Rightarrow> if x \<noteq> [] then x else dflt)"

definition no_source_message :: jstring where
  "no_source_message =
     asc ''No block source specified. Either:\<newline>''
     @ asc ''1. Provide github: { org, repo } for remote source\<newline>''
     @ asc ''2. Set useLocal: true for local blocks\<newline>''
     @ asc ''3. Run from an EDS project directory (auto-detect)''"

definition resolveBlockSource ::
  "jstring option \<Rightarrow> git_remote option \<Rightarrow> source_args
     \<Rightarrow> js_error + (block_source \<times> source_metadata)" where
  "resolveBlockSource detected gitRemote args =
     (case github args of
        Some gh \<Rightarrow>
          Inr (GitHubSource (gh_org gh) (gh_repo gh) (or_default (gh_branch gh) (asc ''main''))
                 (or_default (gh_blocksPath gh) (asc ''blocks'')),
               GithubMeta gh)
      | None \<Rightarrow>
          if useLocal args = Some True then
            (let blocksPath =
                   (if truthy_text (localBlocksPath args) then localBlocksPath args else detected)
             in if \<not> truthy_text blocksPath
                then Inl \<lparr>message = Some (asc ''Local blocks directory not found'')\<rparr>
                else Inr (LocalSource (Dir (or_default blocksPath [])),
                          LocalMeta (or_default blocksPath []) gitRemote))
          else if truthy_text detected then
            Inr (LocalSource (Dir (or_default detected [])),
                 LocalMeta (or_default detected []) gitRemote)
          else Inl \<lparr>message = Some no_source_message\<rparr>)"

text \<open>
  \<^verbatim>\<open>createBlockSource(config)\<close>. Its two \<^verbatim>\<open>throw\<close> statements are guarded by the
  falsity of a path that is a promise when it is not given, and a promise is truthy: no
  branch reaches them. The default parameters of \<^verbatim>\<open>createGitHubSource\<close> apply to an
  absent branch or path only.
\<close>

definition createBlockSource :: "source_args \<Rightarrow> js_error + block_source" where
  "createBlockSource config =
     (if useLocal config = Some True \<or> truthy_text (localBlocksPath config) then
        Inr (LocalSource
               (if truthy_text (localBlocksPath config)
                then Dir (or_default (localBlocksPath config) []) else Pending))
      else
        (case github config of
           Some gh \<Rightarrow>
             Inr (GitHubSource (gh_org gh) (gh_repo gh)
                    (case gh_branch gh of None \<Rightarrow> asc ''main'' | Some b \<Rightarrow> b)
                    (case gh_blocksPath gh of None \<Rightarrow> asc ''blocks'' | Some b \<Rightarrow> b))
         | None \<Rightarrow> Inr (LocalSource Pending)))"

section \<open>Notions used in the statements\<close>

text \<open>
  The description as the specification words it: a lead for a multi-item layout, the
  list of what is present among images, headings and buttons in that order, the list of
  variants, and the capitalised block name when there is none of these.
\<close>

definition spec_auto_description ::
  "(nat \<Rightarrow> jstring) \<Rightarrow> jstring \<Rightarrow> bool \<Rightarrow> bool \<Rightarrow> bool \<Rightarrow> bool \<Rightarrow> jstring list \<Rightarrow> jstring" where
  "spec_auto_description up blockName multi images headings buttons vs =
     (let lead = (if multi then [asc ''Multi-item layout''] else []);
          present =
            map snd
              (filter fst
                 [(images, asc ''images''), (headings, asc ''headings''), (buttons, asc ''buttons'')]);
          listing = (if present = [] then [] else [asc ''with '' @ join (asc '', '') present]);
          variant_part = (if vs = [] then [] else [asc ''Variants: '' @ join (asc '', '') vs]);
          parts = lead @ listing @ variant_part
      in if parts = [] then capitalize up blockName @ asc '' block''
         else join (asc '' '') parts)"

text \<open>The variant list of a call, \<^verbatim>\<open>null\<close> having no variant.\<close>

definition variants_list :: "jstring list option \<Rightarrow> jstring list" where
  "variants_list variants = (case variants of None \<Rightarrow> [] | Some vs \<Rightarrow> vs)"

text \<open>The description that a call writes: the given one unless it is absent or empty.\<close>

definition description_used ::
  "(nat \<Rightarrow> jstring) \<Rightarrow> jstring \<Rightarrow> jstring option \<Rightarrow> jstring list option \<Rightarrow> 'a features_scheme
     \<Rightarrow> jstring" where
  "description_used up blockName description variants structure =
     (if truthy_text description then or_default description []
      else spec_auto_description up blockName (hasMultipleItems structure) (hasImage structure)
             (hasHeading structure) (hasButton structure) (variants_list variants))"

text \<open>
  The text of a section with a given heading, description, class and body, and the text
  of the document before and after its sections.
\<close>

definition section_text :: "jstring \<Rightarrow> jstring \<Rightarrow> jstring \<Rightarrow> jstring \<Rightarrow> jstring" where
  \<open>section_text heading description class_value body =
     asc ''    <div>\<newline>''
     @ asc ''      <div class="library-metadata">\<newline>''
     @ asc ''        <div>\<newline>''
     @ asc ''          <div>name</div>\<newline>''
     @ asc ''          <div>'' @ heading @ asc ''</div>\<newline>''
     @ asc ''        </div>\<newline>''
     @ asc ''        <div>\<newline>''
     @ asc ''          <div>description</div>\<newline>''
     @ asc ''          <div>'' @ description @ asc ''</div>\<newline>''
     @ asc ''        </div>\<newline>''
     @ asc ''      </div>\<newline>''
     @ asc ''      <div class="'' @ class_value @ asc ''">\<newline>''
     @ body @ asc ''      </div>\<newline>''
     @ asc ''    </div>''\<close>

definition template_head :: jstring where
  "template_head = asc ''<body>\<newline>  <header></header>\<newline>  <main>\<newline>''"

definition template_foot :: jstring where
  "template_foot = asc ''\<newline>  </main>\<newline>  <footer></footer>\<newline></body>''"

text \<open>
  The heading and the class of the section of a variant: the capitalised block name and
  the block name, followed by the variant when it is named.
\<close>

definition variant_heading :: "(nat \<Rightarrow> jstring) \<Rightarrow> jstring \<Rightarrow> jstring \<Rightarrow> jstring" where
  "variant_heading up blockName variant =
     (if variant = [] then capitalize up blockName
      else capitalize up blockName @ asc '' ('' @ variant @ asc '')'')"

definition variant_class :: "jstring \<Rightarrow> jstring \<Rightarrow> jstring" where
  "variant_class blockName variant =
     (if variant = [] then blockName else blockName @ asc '' '' @ variant)"

text \<open>The base entry of a content mapping, absent reading as empty.\<close>

definition base_content :: "js_obj \<Rightarrow> jstring" where
  "base_content obj = (case map_of obj [] of None \<Rightarrow> [] | Some v \<Rightarrow> v)"

definition demo_structure :: features where
  "demo_structure =
     \<lparr>hasImage = True, hasHeading = False, hasButton = True, hasMultipleItems = True,
      isBEM = False\<rparr>"

definition no_structure :: features where
  "no_structure =
     \<lparr>hasImage = False, hasHeading = False, hasButton = False, hasMultipleItems = False,
      isBEM = False\<rparr>"

text \<open>An upper-case mapping that changes nothing from U+0100 on, for the examples.\<close>

definition no_upper :: "nat \<Rightarrow> jstring" where
  "no_upper c = [c]"



text \<open>
  The path of the documentation of a block, the outcome of reading it, and the result of
  the check with a given \<^verbatim>\<open>exists\<close>; an error mentions 404 when its message contains
  these three characters.
\<close>

definition docPath_of :: "deps \<Rightarrow> jstring option \<Rightarrow> jstring \<Rightarrow> jstring" where
  "docPath_of d baseFolder blockName =
     buildLibraryPath d (LIBRARY_TYPES_BLOCKS d)
       (case baseFolder of None \<Rightarrow> asc ''library'' | Some f \<Rightarrow> f) blockName"

definition doc_read ::
  "deps \<Rightarrow> jstring \<Rightarrow> jstring \<Rightarrow> jstring \<Rightarrow> jstring option \<Rightarrow> js_error + jstring" where
  "doc_read d org repo blockName baseFolder =
     daAdminRequest d
       (formatURL d (asc ''source'') org repo (docPath_of d baseFolder blockName) (asc ''html''))"

definition doc_result ::
  "deps \<Rightarrow> jstring \<Rightarrow> jstring \<Rightarrow> jstring \<Rightarrow> jstring option \<Rightarrow> bool \<Rightarrow> doc_check" where
  "doc_result d org repo blockName baseFolder found =
     \<lparr>doc_exists = found, doc_path = docPath_of d baseFolder blockName,
      doc_url = buildContentUrl d org repo (docPath_of d baseFolder blockName)\<rparr>"

definition mentions_404 :: "js_error \<Rightarrow> bool" where
  "mentions_404 e =
     (case message e of None \<Rightarrow> False | Some m \<Rightarrow> str_includes m (asc ''404''))"

text \<open>
  A candidate page is skipped when fetching it throws, when \<^verbatim>\<open>parseBlockInstances\<close>
  throws on its text, or when its text has no instance of the block.
\<close>

definition skipped ::
  "deps \<Rightarrow> (jstring \<Rightarrow> jstring \<Rightarrow> js_error + js_obj) \<Rightarrow> (nat \<Rightarrow> jstring) \<Rightarrow> jstring \<Rightarrow> jstring
     \<Rightarrow> jstring \<Rightarrow> jstring \<Rightarrow> bool" where
  "skipped d other up org repo blockName sourcePath =
     (case fetchSourceDocument d org repo sourcePath of
        Inl err \<Rightarrow> True
      | Inr html \<Rightarrow>
          (case parseBlockInstances other up html blockName of
             Inl err \<Rightarrow> True
           | Inr c \<Rightarrow> c = []))"

text \<open>Collaborators of the examples: a document store with five documents.\<close>

definition demo_deps :: deps where
  \<open>demo_deps =
     \<lparr>validateBlockName = (\<lambda>n. \<lparr>valid = True, error = []\<rparr>),
      buildLibraryPath = (\<lambda>t f n. asc ''/'' @ f @ asc ''/'' @ t @ asc ''/'' @ n),
      LIBRARY_TYPES_BLOCKS = asc ''blocks'',
      formatURL = (\<lambda>kind org repo path ext. path),
      buildContentUrl = (\<lambda>org repo path. path),
      daAdminRequest =
        (\<lambda>u. if u = asc ''/library/blocks/hero''
               then Inl \<lparr>message = Some (asc ''HTTP error 404'')\<rparr>
             else if u = asc ''/library/blocks/cards''
               then Inl \<lparr>message = Some (asc ''HTTP error 500'')\<rparr>
             else if u = asc ''/docs/blocks/teaser'' then Inr (asc ''<body></body>'')
             else if u = asc ''/pages/b'' then Inr (asc ''<p>no block</p>'')
             else if u = asc ''/pages/c'' then Inr (asc ''<div class="hero"><p>A</p></div>'')
             else Inl \<lparr>message = None\<rparr>),
      JSON_parse = (\<lambda>t. Inl \<lparr>message = Some (asc ''SyntaxError'')\<rparr>)\<rparr>\<close>

text \<open>
  What the engine does for the block names of the examples that are not literal: the
  constructor throws.
\<close>

definition throws_other :: "jstring \<Rightarrow> jstring \<Rightarrow> js_error + js_obj" where
  "throws_other html blockName = Inl \<lparr>message = Some (asc ''Invalid regular expression'')\<rparr>"


definition path_only_args :: source_args where
  "path_only_args =
     \<lparr>github = None, useLocal = None, localBlocksPath = Some (asc ''/work/site/blocks'')\<rparr>"

definition cards_css :: jstring where
  "cards_css =
     asc ''.cards { gap: 8px } .cards.two-col { columns: 2 } .cards.compact { gap: 0 }''"

definition cards_files :: "jstring \<Rightarrow> jstring option" where
  "cards_files = (\<lambda>p. None)(asc ''cards/cards.css'' := Some cards_css)"

text \<open>The variant that the loop derives for the match of length \<open>len\<close> at \<open>idx\<close>.\<close>

definition match_variant :: "jstring \<Rightarrow> jstring \<Rightarrow> nat \<Rightarrow> nat \<Rightarrow> jstring" where
  "match_variant html blockName idx len =
     variant_of blockName (substring html (idx + 4) (idx + len - 1))"

definition empty_then_filled :: jstring where
  \<open>empty_then_filled = asc ''<div class="hero"></div><div class="hero"><p>A</p></div>''\<close>

definition constructor_hero :: jstring where
  \<open>constructor_hero = asc ''<div class="hero constructor"> <p>x</p> </div>''\<close>

definition dark_hero :: jstring where
  \<open>dark_hero = asc ''<div class="hero dark"> <p>x</p> </div>''\<close>

definition nested_hero :: jstring where
  \<open>nested_hero = asc ''<div class="hero dark"><div><span>X</span></div></div>''\<close>

section \<open>Properties of the string functions\<close>

lemma asc_append: "asc (a @ b) = asc a @ asc b"
  by (simp add: asc_def)

lemma asc_inject: "asc a = asc b \<longleftrightarrow> a = b"
  by (simp add: asc_def inj_map_eq_map inj_def)

lemma startsWith_iff: "startsWith s p \<longleftrightarrow> (\<exists>b. s = p @ b)"
  by (induction s p rule: startsWith.induct) auto

lemma str_includes_iff: "str_includes s p \<longleftrightarrow> (\<exists>a b. s = a @ p @ b)"
proof (induction s)
  case Nil
  then show ?case by auto
next
  case (Cons c cs)
  show ?case
  proof
    assume "str_includes (c # cs) p"
    then consider "startsWith (c # cs) p" | "str_includes cs p"
      by auto
    then show "\<exists>a b. c # cs = a @ p @ b"
    proof cases
      case 1
      then obtain b where "c # cs = p @ b"
        by (auto simp: startsWith_iff)
      then have "c # cs = [] @ p @ b" by simp
      then show ?thesis by blast
    next
      case 2
      with Cons.IH obtain a b where "cs = a @ p @ b" by auto
      then have "c # cs = (c # a) @ p @ b" by simp
      then show ?thesis by blast
    qed
  next
    assume "\<exists>a b. c # cs = a @ p @ b"
    then obtain a b where ab: "c # cs = a @ p @ b" by auto
    show "str_includes (c # cs) p"
    proof (cases a)
      case Nil
      with ab have "startsWith (c # cs) p"
        by (auto simp: startsWith_iff)
      then show ?thesis by simp
    next
      case (Cons x a')
      with ab have "cs = a' @ p @ b" by simp
      with Cons.IH have "str_includes cs p" by auto
      then show ?thesis by simp
    qed
  qed
qed

lemma trim_decomposition:
  "\<exists>a b. s = a @ trim s @ b \<and> (\<forall>c\<in>set a. js_space c) \<and> (\<forall>c\<in>set b. js_space c)"
proof -
  let ?t = "dropWhile js_space s"
  have 1: "s = takeWhile js_space s @ ?t"
    by simp
  have "rev (rev ?t) = rev (takeWhile js_space (rev ?t) @ dropWhile js_space (rev ?t))"
    by (simp only: takeWhile_dropWhile_id)
  then have 2: "?t = trim s @ rev (takeWhile js_space (rev ?t))"
    by (simp only: rev_rev_ident rev_append trim_def)
  have 3: "\<forall>c\<in>set (takeWhile js_space s). js_space c"
    by (auto dest: set_takeWhileD)
  have 4: "\<forall>c\<in>set (rev (takeWhile js_space (rev ?t))). js_space c"
    by (auto dest: set_takeWhileD)
  from 1 2 have "s = takeWhile js_space s @ trim s @ rev (takeWhile js_space (rev ?t))"
    by simp
  with 3 4 show ?thesis
    by blast
qed

lemma trim_ends:
  assumes "trim s \<noteq> []"
  shows "\<not> js_space (hd (trim s))" and "\<not> js_space (last (trim s))"
proof -
  let ?t = "dropWhile js_space s"
  let ?u = "dropWhile js_space (rev ?t)"
  from assms have u: "?u \<noteq> []"
    by (simp add: trim_def)
  then have t: "?t \<noteq> []"
    by (metis dropWhile.simps(1) rev.simps(1))
  have "last (trim s) = hd ?u"
    using u by (simp add: trim_def last_rev)
  then show "\<not> js_space (last (trim s))"
    using u hd_dropWhile [of js_space "rev ?t"] by simp
  have "hd (trim s) = last ?u"
    using u by (simp add: trim_def hd_rev)
  also have "\<dots> = last (rev ?t)"
    using u by (metis append_Nil2 last_appendR takeWhile_dropWhile_id)
  also have "\<dots> = hd ?t"
    using t by (simp add: last_rev)
  finally show "\<not> js_space (hd (trim s))"
    using t hd_dropWhile [of js_space s] by simp
qed

lemma some_class_includes_iff:
  "some_class_includes ps cs \<longleftrightarrow> (\<exists>c\<in>set cs. \<exists>p\<in>set ps. \<exists>a b. c = a @ p @ b)"
  by (auto simp: some_class_includes_def list_ex_iff str_includes_iff)

lemma some_class_includes_set:
  "set cs = set cs' \<Longrightarrow> some_class_includes ps cs = some_class_includes ps cs'"
  by (simp add: some_class_includes_def list_ex_iff)

lemma patterns_simps:
  "patterns_of ''hasImage'' = map asc [''image'', ''img'', ''picture'', ''photo'']"
  "patterns_of ''hasHeading'' = map asc [''title'', ''heading'', ''headline'']"
  "patterns_of ''hasButton'' = map asc [''button'', ''btn'', ''cta'', ''action'']"
  "patterns_of ''hasMultipleItems'' = map asc [''item'', ''card'', ''column'']"
  by (simp_all add: patterns_of_def STRUCTURE_PATTERNS_def)

section \<open>Structure flags\<close>

text \<open>
  Claim C5. The flags that \<open>detectStructureFeatures\<close> computes depend on the set of class
  names only, so neither the order of the list nor a repeated name changes them; being a
  function of its input, it gives the same flags each time it is computed. The image,
  heading, button and multi-item flags are true exactly when some class name contains one
  of the patterns of the flag as a substring, and the BEM flag exactly when some class
  name contains \<^verbatim>\<open>__\<close> or \<^verbatim>\<open>--\<close>.
\<close>

theorem detectStructureFeatures_flags:
  "(set cs = set cs' \<longrightarrow> detectStructureFeatures cs = detectStructureFeatures cs')
   \<and> hasImage (detectStructureFeatures cs)
       = (\<exists>c\<in>set cs. \<exists>p\<in>set (map asc [''image'', ''img'', ''picture'', ''photo'']).
            \<exists>a b. c = a @ p @ b)
   \<and> hasHeading (detectStructureFeatures cs)
       = (\<exists>c\<in>set cs. \<exists>p\<in>set (map asc [''title'', ''heading'', ''headline'']).
            \<exists>a b. c = a @ p @ b)
   \<and> hasButton (detectStructureFeatures cs)
       = (\<exists>c\<in>set cs. \<exists>p\<in>set (map asc [''button'', ''btn'', ''cta'', ''action'']).
            \<exists>a b. c = a @ p @ b)
   \<and> hasMultipleItems (detectStructureFeatures cs)
       = (\<exists>c\<in>set cs. \<exists>p\<in>set (map asc [''item'', ''card'', ''column'']).
            \<exists>a b. c = a @ p @ b)
   \<and> isBEM (detectStructureFeatures cs)
       = (\<exists>c\<in>set cs. (\<exists>a b. c = a @ asc ''__'' @ b) \<or> (\<exists>a b. c = a @ asc ''--'' @ b))"
proof -
  have 1: "set cs = set cs' \<longrightarrow> detectStructureFeatures cs = detectStructureFeatures cs'"
    by (simp add: detectStructureFeatures_def some_class_includes_set [of cs cs'] list_ex_iff)
  have 2: "hasImage (detectStructureFeatures cs)
       = (\<exists>c\<in>set cs. \<exists>p\<in>set (map asc [''image'', ''img'', ''picture'', ''photo'']).
            \<exists>a b. c = a @ p @ b)"
    unfolding detectStructureFeatures_def patterns_simps
    by (simp only: features.simps some_class_includes_iff)
  have 3: "hasHeading (detectStructureFeatures cs)
       = (\<exists>c\<in>set cs. \<exists>p\<in>set (map asc [''title'', ''heading'', ''headline'']).
            \<exists>a b. c = a @ p @ b)"
    unfolding detectStructureFeatures_def patterns_simps
    by (simp only: features.simps some_class_includes_iff)
  have 4: "hasButton (detectStructureFeatures cs)
       = (\<exists>c\<in>set cs. \<exists>p\<in>set (map asc [''button'', ''btn'', ''cta'', ''action'']).
            \<exists>a b. c = a @ p @ b)"
    unfolding detectStructureFeatures_def patterns_simps
    by (simp only: features.simps some_class_includes_iff)
  have 5: "hasMultipleItems (detectStructureFeatures cs)
       = (\<exists>c\<in>set cs. \<exists>p\<in>set (map asc [''item'', ''card'', ''column'']).
            \<exists>a b. c = a @ p @ b)"
    unfolding detectStructureFeatures_def patterns_simps
    by (simp only: features.simps some_class_includes_iff)
  have 6: "isBEM (detectStructureFeatures cs)
       = (\<exists>c\<in>set cs. (\<exists>a b. c = a @ asc ''__'' @ b) \<or> (\<exists>a b. c = a @ asc ''--'' @ b))"
    unfolding detectStructureFeatures_def
    by (simp only: features.simps list_ex_iff str_includes_iff)
  from 1 2 3 4 5 6 show ?thesis
    by (intro conjI)
qed

theorem detectStructureFeatures_flags_witness:
  "detectStructureFeatures [asc ''card-image'', asc ''hero__title'']
     = detectStructureFeatures [asc ''hero__title'', asc ''card-image'', asc ''hero__title'']
   \<and> hasImage (detectStructureFeatures [asc ''card-image'', asc ''hero__title''])
   \<and> hasHeading (detectStructureFeatures [asc ''card-image'', asc ''hero__title''])
   \<and> \<not> hasButton (detectStructureFeatures [asc ''card-image'', asc ''hero__title''])
   \<and> hasMultipleItems (detectStructureFeatures [asc ''card-image'', asc ''hero__title''])
   \<and> isBEM (detectStructureFeatures [asc ''card-image'', asc ''hero__title''])"
proof -
  have s: "set [asc ''card-image'', asc ''hero__title'']
             = set [asc ''hero__title'', asc ''card-image'', asc ''hero__title'']"
    by auto
  have e: "detectStructureFeatures [asc ''card-image'', asc ''hero__title'']
     = detectStructureFeatures [asc ''hero__title'', asc ''card-image'', asc ''hero__title'']"
    using detectStructureFeatures_flags
            [of "[asc ''card-image'', asc ''hero__title'']"
                "[asc ''hero__title'', asc ''card-image'', asc ''hero__title'']"] s
    by blast
  have v: "hasImage (detectStructureFeatures [asc ''card-image'', asc ''hero__title''])"
    "hasHeading (detectStructureFeatures [asc ''card-image'', asc ''hero__title''])"
    "\<not> hasButton (detectStructureFeatures [asc ''card-image'', asc ''hero__title''])"
    "hasMultipleItems (detectStructureFeatures [asc ''card-image'', asc ''hero__title''])"
    "isBEM (detectStructureFeatures [asc ''card-image'', asc ''hero__title''])"
    by code_simp+
  from e v show ?thesis by blast
qed

section \<open>Template generator: description and sections\<close>

lemma generateAutoDescription_spec:
  "generateAutoDescription up b st variants
     = spec_auto_description up b (hasMultipleItems st) (hasImage st) (hasHeading st)
         (hasButton st) (variants_list variants)"
  by (cases variants)
     (auto simp: generateAutoDescription_def spec_auto_description_def variants_list_def Let_def)

lemma block_section_text:
  "block_section up native b text bc v
     = section_text (variant_heading up b v) text (variant_class b v) (content_for native bc v)"
  by (simp add: block_section_def section_text_def variant_heading_def variant_class_def Let_def)

lemma blockSections_text:
  "blockSections up native b description variants st bc
     = map (\<lambda>v. section_text (variant_heading up b v)
                  (description_used up b description variants st) (variant_class b v)
                  (content_for native bc v))
         (if variants_list variants = [] then [Nil] else variants_list variants)"
  by (cases variants; cases description)
     (auto simp: blockSections_def block_section_text generateAutoDescription_spec
        description_used_def truthy_text_def or_default_def variants_list_def Let_def)

text \<open>
  Claim C6. Without an explicit description the generator writes the synthesized one into
  every section: the lead \<^verbatim>\<open>Multi-item layout\<close> when the multi-item flag is set, then
  \<^verbatim>\<open>with\<close> and those of images, headings, buttons that are present, in that order,
  then \<^verbatim>\<open>Variants:\<close> and the variants when there are any, and the capitalised block
  name followed by \<^verbatim>\<open>block\<close> when none of these applies. With no variant the document
  is its head, one section and its foot, and the section is that of the unnamed base
  variant: its heading is the capitalised block name and its class the block name.
\<close>

theorem generateBlockTemplate_description:
  "generateAutoDescription up b st variants
     = spec_auto_description up b (hasMultipleItems st) (hasImage st) (hasHeading st)
         (hasButton st) (variants_list variants)
   \<and> blockSections up native b None variants st bc
     = map (\<lambda>v. section_text (variant_heading up b v)
                  (spec_auto_description up b (hasMultipleItems st) (hasImage st) (hasHeading st)
                     (hasButton st) (variants_list variants))
                  (variant_class b v) (content_for native bc v))
         (if variants_list variants = [] then [Nil] else variants_list variants)
   \<and> (variants_list variants = [] \<longrightarrow>
        blockSections up native b description variants st bc
          = [section_text (capitalize up b) (description_used up b description variants st) b
               (content_for native bc [])]
        \<and> generateBlockTemplate up native b description variants st bc
          = template_head
            @ section_text (capitalize up b) (description_used up b description variants st) b
                (content_for native bc [])
            @ template_foot)"
proof (intro conjI impI)
  show "generateAutoDescription up b st variants
     = spec_auto_description up b (hasMultipleItems st) (hasImage st) (hasHeading st)
         (hasButton st) (variants_list variants)"
    by (rule generateAutoDescription_spec)
  show "blockSections up native b None variants st bc
     = map (\<lambda>v. section_text (variant_heading up b v)
                  (spec_auto_description up b (hasMultipleItems st) (hasImage st) (hasHeading st)
                     (hasButton st) (variants_list variants))
                  (variant_class b v) (content_for native bc v))
         (if variants_list variants = [] then [Nil] else variants_list variants)"
    by (simp only: blockSections_text description_used_def truthy_text_def option.case if_False)
next
  assume e: "variants_list variants = []"
  show "blockSections up native b description variants st bc
          = [section_text (capitalize up b) (description_used up b description variants st) b
               (content_for native bc [])]"
    by (simp add: blockSections_text e variant_heading_def variant_class_def)
  show "generateBlockTemplate up native b description variants st bc
          = template_head
            @ section_text (capitalize up b) (description_used up b description variants st) b
                (content_for native bc [])
            @ template_foot"
    by (simp add: generateBlockTemplate_def blockSections_text e template_head_def
          template_foot_def variant_heading_def variant_class_def)
qed

theorem generateBlockTemplate_description_witness:
  \<open>generateAutoDescription no_upper (asc ''cards'') demo_structure (Some [asc ''dark'', asc ''wide''])
     = asc ''Multi-item layout with images, buttons Variants: dark, wide''
   \<and> generateAutoDescription no_upper ([233] @ asc ''lan'') no_structure (Some [])
     = [201] @ asc ''lan block''
   \<and> generateBlockTemplate no_upper (\<lambda>k. k) (asc ''hero'') None (Some []) no_structure None
     = asc ''<body>\<newline>  <header></header>\<newline>  <main>\<newline>''
       @ asc ''    <div>\<newline>''
       @ asc ''      <div class="library-metadata">\<newline>''
       @ asc ''        <div>\<newline>''
       @ asc ''          <div>name</div>\<newline>''
       @ asc ''          <div>Hero</div>\<newline>''
       @ asc ''        </div>\<newline>''
       @ asc ''        <div>\<newline>''
       @ asc ''          <div>description</div>\<newline>''
       @ asc ''          <div>Hero block</div>\<newline>''
       @ asc ''        </div>\<newline>''
       @ asc ''      </div>\<newline>''
       @ asc ''      <div class="hero">\<newline>''
       @ asc ''      </div>\<newline>''
       @ asc ''    </div>''
       @ asc ''\<newline>  </main>\<newline>  <footer></footer>\<newline></body>''\<close>
proof -
  have v: "variants_list (Some []) = []"
    by (simp add: variants_list_def)
  have 1: "generateAutoDescription no_upper (asc ''cards'') demo_structure
             (Some [asc ''dark'', asc ''wide''])
     = asc ''Multi-item layout with images, buttons Variants: dark, wide''"
    using generateBlockTemplate_description
            [of no_upper "asc ''cards''" demo_structure "Some [asc ''dark'', asc ''wide'']"
                "\<lambda>k. k" None None]
    by (simp add: spec_auto_description_def variants_list_def demo_structure_def asc_def)
  have 2: "generateAutoDescription no_upper ([233] @ asc ''lan'') no_structure (Some [])
     = [201] @ asc ''lan block''"
    using generateBlockTemplate_description
            [of no_upper "[233] @ asc ''lan''" no_structure "Some []" "\<lambda>k. k" None None]
    by (simp add: spec_auto_description_def variants_list_def no_structure_def capitalize_def
          toUpperCase_unit_def asc_def)
  have d: "description_used no_upper (asc ''hero'') None (Some []) no_structure = asc ''Hero block''"
    by (simp add: description_used_def truthy_text_def spec_auto_description_def
          variants_list_def no_structure_def capitalize_def toUpperCase_unit_def asc_def)
  have c: "capitalize no_upper (asc ''hero'') = asc ''Hero''"
    by (simp add: capitalize_def toUpperCase_unit_def asc_def)
  have 3: "generateBlockTemplate no_upper (\<lambda>k. k) (asc ''hero'') None (Some []) no_structure None
     = template_head
       @ section_text (asc ''Hero'') (asc ''Hero block'') (asc ''hero'') []
       @ template_foot"
    using generateBlockTemplate_description
            [of no_upper "asc ''hero''" no_structure "Some []" "\<lambda>k. k" None None] v
    by (simp add: d c content_for_def)
  from 1 2 3 show ?thesis
    by (simp add: template_head_def template_foot_def section_text_def asc_def)
qed

section \<open>Template generator: content of a section\<close>

lemma content_for_empty_entry:
  assumes "map_of obj variant = Some []"
  shows "content_for native (Some obj) variant = base_content obj"
  using assms
  by (auto simp: content_for_def get_prop_def base_content_def object_prototype_keys_def asc_def
           split: option.splits)

text \<open>
  Claim C10. For a named variant whose entry in the content mapping is the empty string,
  the body of the generated section is the base entry (the one under the empty key):
  the section is the text with the heading and the class of the variant and with the base
  entry as its body, and the body is empty only when the base entry is absent or empty
  too.
\<close>

theorem empty_variant_content_uses_base:
  "variant \<noteq> [] \<and> map_of obj variant = Some [] \<longrightarrow>
     content_for native (Some obj) variant = base_content obj
     \<and> block_section up native b text (Some obj) variant
       = section_text (capitalize up b @ asc '' ('' @ variant @ asc '')'') text
           (b @ asc '' '' @ variant) (base_content obj)
     \<and> (content_for native (Some obj) variant = []
          \<longleftrightarrow> map_of obj [] = None \<or> map_of obj [] = Some [])"
proof (intro impI, elim conjE)
  assume n: "variant \<noteq> []" and e: "map_of obj variant = Some []"
  have 1: "content_for native (Some obj) variant = base_content obj"
    by (rule content_for_empty_entry [OF e])
  have 2: "block_section up native b text (Some obj) variant
       = section_text (capitalize up b @ asc '' ('' @ variant @ asc '')'') text
           (b @ asc '' '' @ variant) (base_content obj)"
    using n by (simp add: block_section_text 1 variant_heading_def variant_class_def)
  have 3: "content_for native (Some obj) variant = []
          \<longleftrightarrow> map_of obj [] = None \<or> map_of obj [] = Some []"
    unfolding 1 by (auto simp: base_content_def split: option.splits)
  from 1 2 3 show "content_for native (Some obj) variant = base_content obj
     \<and> block_section up native b text (Some obj) variant
       = section_text (capitalize up b @ asc '' ('' @ variant @ asc '')'') text
           (b @ asc '' '' @ variant) (base_content obj)
     \<and> (content_for native (Some obj) variant = []
          \<longleftrightarrow> map_of obj [] = None \<or> map_of obj [] = Some [])"
    by blast
qed

theorem empty_variant_content_uses_base_witness:
  \<open>block_section no_upper (\<lambda>k. k) (asc ''hero'') (asc ''Hero block'')
     (Some [([], asc ''<p>A</p>''), (asc ''dark'', [])]) (asc ''dark'')
     = asc ''    <div>\<newline>''
       @ asc ''      <div class="library-metadata">\<newline>''
       @ asc ''        <div>\<newline>''
       @ asc ''          <div>name</div>\<newline>''
       @ asc ''          <div>Hero (dark)</div>\<newline>''
       @ asc ''        </div>\<newline>''
       @ asc ''        <div>\<newline>''
       @ asc ''          <div>description</div>\<newline>''
       @ asc ''          <div>Hero block</div>\<newline>''
       @ asc ''        </div>\<newline>''
       @ asc ''      </div>\<newline>''
       @ asc ''      <div class="hero dark">\<newline>''
       @ asc ''<p>A</p>      </div>\<newline>''
       @ asc ''    </div>''
   \<and> content_for (\<lambda>k. k) (Some [(asc ''dark'', [])]) (asc ''dark'') = []\<close>
proof -
  have n: "asc ''dark'' \<noteq> []"
    by (simp add: asc_def)
  have m1: "map_of [([], asc ''<p>A</p>''), (asc ''dark'', [])] (asc ''dark'') = Some []"
    by (simp add: asc_def)
  have b1: "base_content [([], asc ''<p>A</p>''), (asc ''dark'', [])] = asc ''<p>A</p>''"
    by (simp add: base_content_def)
  have c: "capitalize no_upper (asc ''hero'') = asc ''Hero''"
    by (simp add: capitalize_def toUpperCase_unit_def asc_def)
  have 1: "block_section no_upper (\<lambda>k. k) (asc ''hero'') (asc ''Hero block'')
     (Some [([], asc ''<p>A</p>''), (asc ''dark'', [])]) (asc ''dark'')
     = section_text (asc ''Hero'' @ asc '' ('' @ asc ''dark'' @ asc '')'') (asc ''Hero block'')
         (asc ''hero'' @ asc '' '' @ asc ''dark'') (asc ''<p>A</p>'')"
    using empty_variant_content_uses_base
            [of "asc ''dark''" "[([], asc ''<p>A</p>''), (asc ''dark'', [])]" "\<lambda>k. k" no_upper
                "asc ''hero''" "asc ''Hero block''"] n m1
    by (simp add: b1 c)
  have m2: "map_of [(asc ''dark'', [])] (asc ''dark'') = Some []"
    by simp
  have 2: "content_for (\<lambda>k. k) (Some [(asc ''dark'', [])]) (asc ''dark'') = []"
    using empty_variant_content_uses_base
            [of "asc ''dark''" "[(asc ''dark'', [])]" "\<lambda>k. k" no_upper "asc ''hero''"
                "asc ''Hero block''"] n m2
    by (simp add: base_content_def asc_def)
  from 1 2 show ?thesis
    by (simp add: section_text_def asc_def)
qed


section \<open>Empty files\<close>







section \<open>Existence of the documentation of a block\<close>

lemma mentions_404_iff:
  "mentions_404 e \<longleftrightarrow> (\<exists>m a c. message e = Some m \<and> m = a @ asc ''404'' @ c)"
  by (auto simp: mentions_404_def str_includes_iff split: option.splits)

lemma checkBlockDocExists_valid:
  assumes "valid (validateBlockName d b)"
  shows "checkBlockDocExists d org repo b bf =
     (case doc_read d org repo b bf of
        Inr r \<Rightarrow> Inr (doc_result d org repo b bf True)
      | Inl e \<Rightarrow> if mentions_404 e then Inr (doc_result d org repo b bf False) else Inl e)"
  using assms
  by (simp add: checkBlockDocExists_def doc_read_def doc_result_def docPath_of_def
        mentions_404_def Let_def split: sum.splits)

text \<open>
  Claim C7. For a valid block name, the check returns \<^verbatim>\<open>exists: true\<close> when the read of
  the document succeeds, returns \<^verbatim>\<open>exists: false\<close> as an ordinary result when the read
  fails with an error whose message contains \<^verbatim>\<open>404\<close>, and rethrows any other error of
  the read as it is; a result with \<^verbatim>\<open>exists: false\<close> arises in no other way.
\<close>

theorem checkBlockDocExists_outcomes:
  "valid (validateBlockName d b) \<longrightarrow>
     (\<forall>r. doc_read d org repo b bf = Inr r \<longrightarrow>
        checkBlockDocExists d org repo b bf = Inr (doc_result d org repo b bf True))
   \<and> (\<forall>e. doc_read d org repo b bf = Inl e \<and> mentions_404 e \<longrightarrow>
        checkBlockDocExists d org repo b bf = Inr (doc_result d org repo b bf False))
   \<and> (\<forall>e. doc_read d org repo b bf = Inl e \<and> \<not> mentions_404 e \<longrightarrow>
        checkBlockDocExists d org repo b bf = Inl e)
   \<and> ((\<exists>r. checkBlockDocExists d org repo b bf = Inr r \<and> \<not> doc_exists r)
        \<longleftrightarrow> (\<exists>e. doc_read d org repo b bf = Inl e \<and> mentions_404 e))"
proof
  assume v: "valid (validateBlockName d b)"
  note c = checkBlockDocExists_valid [OF v, of org repo bf]
  have 1: "\<forall>r. doc_read d org repo b bf = Inr r \<longrightarrow>
        checkBlockDocExists d org repo b bf = Inr (doc_result d org repo b bf True)"
    by (simp add: c)
  have 2: "\<forall>e. doc_read d org repo b bf = Inl e \<and> mentions_404 e \<longrightarrow>
        checkBlockDocExists d org repo b bf = Inr (doc_result d org repo b bf False)"
    by (simp add: c)
  have 3: "\<forall>e. doc_read d org repo b bf = Inl e \<and> \<not> mentions_404 e \<longrightarrow>
        checkBlockDocExists d org repo b bf = Inl e"
    by (simp add: c)
  have 4: "(\<exists>r. checkBlockDocExists d org repo b bf = Inr r \<and> \<not> doc_exists r)
        \<longleftrightarrow> (\<exists>e. doc_read d org repo b bf = Inl e \<and> mentions_404 e)"
    unfolding c by (cases "doc_read d org repo b bf") (auto simp: doc_result_def)
  from 1 2 3 4 show "(\<forall>r. doc_read d org repo b bf = Inr r \<longrightarrow>
        checkBlockDocExists d org repo b bf = Inr (doc_result d org repo b bf True))
   \<and> (\<forall>e. doc_read d org repo b bf = Inl e \<and> mentions_404 e \<longrightarrow>
        checkBlockDocExists d org repo b bf = Inr (doc_result d org repo b bf False))
   \<and> (\<forall>e. doc_read d org repo b bf = Inl e \<and> \<not> mentions_404 e \<longrightarrow>
        checkBlockDocExists d org repo b bf = Inl e)
   \<and> ((\<exists>r. checkBlockDocExists d org repo b bf = Inr r \<and> \<not> doc_exists r)
        \<longleftrightarrow> (\<exists>e. doc_read d org repo b bf = Inl e \<and> mentions_404 e))"
    by blast
qed

theorem checkBlockDocExists_outcomes_witness:
  "checkBlockDocExists demo_deps (asc ''org'') (asc ''site'') (asc ''hero'') None
     = Inr \<lparr>doc_exists = False, doc_path = asc ''/library/blocks/hero'',
            doc_url = asc ''/library/blocks/hero''\<rparr>
   \<and> checkBlockDocExists demo_deps (asc ''org'') (asc ''site'') (asc ''cards'') None
     = Inl \<lparr>message = Some (asc ''HTTP error 500'')\<rparr>
   \<and> checkBlockDocExists demo_deps (asc ''org'') (asc ''site'') (asc ''teaser'') (Some (asc ''docs''))
     = Inr \<lparr>doc_exists = True, doc_path = asc ''/docs/blocks/teaser'',
            doc_url = asc ''/docs/blocks/teaser''\<rparr>"
proof -
  have v: "\<And>n. valid (validateBlockName demo_deps n)"
    by (simp add: demo_deps_def)
  have r1: "doc_read demo_deps (asc ''org'') (asc ''site'') (asc ''hero'') None
              = Inl \<lparr>message = Some (asc ''HTTP error 404'')\<rparr>"
    by (simp add: doc_read_def docPath_of_def demo_deps_def asc_def)
  have m1: "mentions_404 \<lparr>message = Some (asc ''HTTP error 404'')\<rparr>"
    by (simp add: mentions_404_def asc_def)
  have r2: "doc_read demo_deps (asc ''org'') (asc ''site'') (asc ''cards'') None
              = Inl \<lparr>message = Some (asc ''HTTP error 500'')\<rparr>"
    by (simp add: doc_read_def docPath_of_def demo_deps_def asc_def)
  have m2: "\<not> mentions_404 \<lparr>message = Some (asc ''HTTP error 500'')\<rparr>"
    by (simp add: mentions_404_def asc_def)
  have r3: "doc_read demo_deps (asc ''org'') (asc ''site'') (asc ''teaser'') (Some (asc ''docs''))
              = Inr (asc ''<body></body>'')"
    by (simp add: doc_read_def docPath_of_def demo_deps_def asc_def)
  have 1: "checkBlockDocExists demo_deps (asc ''org'') (asc ''site'') (asc ''hero'') None
     = Inr (doc_result demo_deps (asc ''org'') (asc ''site'') (asc ''hero'') None False)"
    using checkBlockDocExists_outcomes
            [of demo_deps "asc ''hero''" "asc ''org''" "asc ''site''" None] v r1 m1
    by blast
  have 2: "checkBlockDocExists demo_deps (asc ''org'') (asc ''site'') (asc ''cards'') None
     = Inl \<lparr>message = Some (asc ''HTTP error 500'')\<rparr>"
    using checkBlockDocExists_outcomes
            [of demo_deps "asc ''cards''" "asc ''org''" "asc ''site''" None] v r2 m2
    by blast
  have 3: "checkBlockDocExists demo_deps (asc ''org'') (asc ''site'') (asc ''teaser'')
             (Some (asc ''docs''))
     = Inr (doc_result demo_deps (asc ''org'') (asc ''site'') (asc ''teaser'')
              (Some (asc ''docs'')) True)"
    using checkBlockDocExists_outcomes
            [of demo_deps "asc ''teaser''" "asc ''org''" "asc ''site''" "Some (asc ''docs'')"] v r3
    by blast
  from 1 2 3 show ?thesis
    by (simp add: doc_result_def docPath_of_def demo_deps_def asc_def)
qed

section \<open>Source resolution with a local path alone\<close>

text \<open>
  Claim C3 on the arguments \<^verbatim>\<open>{ localBlocksPath: '/work/site/blocks' }\<close>:
  \<^verbatim>\<open>resolveBlockSource\<close> throws the configuration error when the current directory has
  no \<^verbatim>\<open>blocks\<close> directory and uses the detected directory when it has one, while
  \<^verbatim>\<open>createBlockSource\<close> gives a local source rooted at the given path.
\<close>

theorem resolveBlockSource_local_path_alone:
  "resolveBlockSource None None path_only_args = Inl \<lparr>message = Some no_source_message\<rparr>
   \<and> resolveBlockSource (Some (asc ''/cwd/blocks'')) None path_only_args
       = Inr (LocalSource (Dir (asc ''/cwd/blocks'')), LocalMeta (asc ''/cwd/blocks'') None)
   \<and> createBlockSource path_only_args = Inr (LocalSource (Dir (asc ''/work/site/blocks'')))"
  by (simp add: resolveBlockSource_def createBlockSource_def path_only_args_def truthy_text_def
        or_default_def asc_def)

section \<open>Variants with a hyphen\<close>

text \<open>
  Claim C4 on a stylesheet with the selectors \<^verbatim>\<open>.cards\<close>, \<^verbatim>\<open>.cards.two-col\<close> and
  \<^verbatim>\<open>.cards.compact\<close>: the class names are read whole, the variant \<^verbatim>\<open>two-col\<close> is cut at
  its hyphen.
\<close>

theorem css_variants_hyphenated:
  "css_classes cards_css = [asc ''cards'', asc ''two-col'', asc ''compact'']
   \<and> css_variants (asc ''cards'') cards_css = [asc ''two'', asc ''compact'']
   \<and> an_variants (analyzeBlock (\<lambda>js. None) (\<lambda>js. None) cards_files (asc ''cards''))
       = [asc ''two'', asc ''compact'']"
  by code_simp

section \<open>Candidate pages of the extractor\<close>

lemma try_paths_skipped:
  "\<forall>q\<in>set pre. skipped d other up org repo b q \<Longrightarrow>
   try_paths d other up org repo b (pre @ rest) = try_paths d other up org repo b rest"
  by (induction pre) (auto simp: skipped_def split: sum.splits)

lemma try_paths_hit:
  "fetchSourceDocument d org repo p = Inr html \<Longrightarrow> parseBlockInstances other up html b = Inr c
   \<Longrightarrow> c \<noteq> [] \<Longrightarrow>
   try_paths d other up org repo b (p # post) = \<lparr>content = Some c, sourceUsed = Some p\<rparr>"
  by simp

lemma fetchSourceDocument_errors:
  "(\<forall>e. daAdminRequest d (formatURL d (asc ''source'') org repo q (asc ''html'')) = Inl e
        \<longrightarrow> fetchSourceDocument d org repo q = Inl e)
   \<and> (\<forall>r e. daAdminRequest d (formatURL d (asc ''source'') org repo q (asc ''html'')) = Inr r
          \<and> startsWith r [dq] \<and> endsWith r [dq] \<and> JSON_parse d r = Inl e
        \<longrightarrow> fetchSourceDocument d org repo q = Inl e)"
  by (simp add: fetchSourceDocument_def)

text \<open>
  Claim C8. The extractor tries the candidate paths in order. A candidate whose fetch
  throws, whose quoted response fails to parse, or on whose text the search for instances
  throws, is skipped, as is one whose text has no instance of the block. After skipped
  candidates only, the first candidate whose text has an instance gives the result: its
  mapping and its path. When every candidate is skipped the result has neither mapping
  nor path, and it is a result, not an error.
\<close>

theorem extractBlockContent_first_candidate:
  "(\<forall>e. daAdminRequest d (formatURL d (asc ''source'') org repo q (asc ''html'')) = Inl e
        \<longrightarrow> skipped d other up org repo b q)
   \<and> (\<forall>r e. daAdminRequest d (formatURL d (asc ''source'') org repo q (asc ''html'')) = Inr r
          \<and> startsWith r [dq] \<and> endsWith r [dq] \<and> JSON_parse d r = Inl e
        \<longrightarrow> skipped d other up org repo b q)
   \<and> (\<forall>html e. fetchSourceDocument d org repo q = Inr html
          \<and> parseBlockInstances other up html b = Inl e
        \<longrightarrow> skipped d other up org repo b q)
   \<and> (\<forall>html. fetchSourceDocument d org repo q = Inr html
          \<and> parseBlockInstances other up html b = Inr []
        \<longrightarrow> skipped d other up org repo b q)
   \<and> ((\<forall>q\<in>set pre. skipped d other up org repo b q) \<longrightarrow>
        (\<forall>html c. fetchSourceDocument d org repo p = Inr html
            \<and> parseBlockInstances other up html b = Inr c \<and> c \<noteq> [] \<longrightarrow>
           extractBlockContent d other up org repo (PathList (pre @ p # post)) b
             = \<lparr>content = Some c, sourceUsed = Some p\<rparr>)
        \<and> extractBlockContent d other up org repo (PathList pre) b
             = \<lparr>content = None, sourceUsed = None\<rparr>)"
proof (intro conjI impI allI)
  fix e
  assume "daAdminRequest d (formatURL d (asc ''source'') org repo q (asc ''html'')) = Inl e"
  then show "skipped d other up org repo b q"
    using fetchSourceDocument_errors [of d org repo q] by (auto simp: skipped_def)
next
  fix r e
  assume "daAdminRequest d (formatURL d (asc ''source'') org repo q (asc ''html'')) = Inr r
          \<and> startsWith r [dq] \<and> endsWith r [dq] \<and> JSON_parse d r = Inl e"
  then show "skipped d other up org repo b q"
    using fetchSourceDocument_errors [of d org repo q] by (auto simp: skipped_def)
next
  fix html e
  assume "fetchSourceDocument d org repo q = Inr html
          \<and> parseBlockInstances other up html b = Inl e"
  then show "skipped d other up org repo b q"
    by (simp add: skipped_def)
next
  fix html
  assume "fetchSourceDocument d org repo q = Inr html
          \<and> parseBlockInstances other up html b = Inr []"
  then show "skipped d other up org repo b q"
    by (simp add: skipped_def)
next
  fix html c
  assume s: "\<forall>q\<in>set pre. skipped d other up org repo b q"
    and h: "fetchSourceDocument d org repo p = Inr html
            \<and> parseBlockInstances other up html b = Inr c \<and> c \<noteq> []"
  show "extractBlockContent d other up org repo (PathList (pre @ p # post)) b
             = \<lparr>content = Some c, sourceUsed = Some p\<rparr>"
    using try_paths_skipped [OF s, of "p # post"]
      try_paths_hit [of d org repo p html other up b c post] h
    by (simp add: extractBlockContent_def)
next
  assume s: "\<forall>q\<in>set pre. skipped d other up org repo b q"
  show "extractBlockContent d other up org repo (PathList pre) b
          = \<lparr>content = None, sourceUsed = None\<rparr>"
    using try_paths_skipped [OF s, of "[]"]
    by (simp add: extractBlockContent_def)
qed

theorem extractBlockContent_first_candidate_witness:
  \<open>extractBlockContent demo_deps throws_other no_upper (asc ''org'') (asc ''site'')
     (PathList [asc ''/pages/a'', asc ''/pages/b'', asc ''/pages/c'', asc ''/pages/d''])
     (asc ''hero'')
     = \<lparr>content = Some [([], asc ''<p>A</p>'')], sourceUsed = Some (asc ''/pages/c'')\<rparr>
   \<and> extractBlockContent demo_deps throws_other no_upper (asc ''org'') (asc ''site'')
       (PathList [asc ''/pages/a'', asc ''/pages/b'']) (asc ''hero'')
     = \<lparr>content = None, sourceUsed = None\<rparr>
   \<and> parseBlockInstances throws_other no_upper (asc ''<div class="hero"><p>A</p></div>'')
       (asc ''(x'')
     = Inl \<lparr>message = Some (asc ''Invalid regular expression'')\<rparr>
   \<and> skipped demo_deps throws_other no_upper (asc ''org'') (asc ''site'') (asc ''(x'')
       (asc ''/pages/c'')
   \<and> extractBlockContent demo_deps throws_other no_upper (asc ''org'') (asc ''site'')
       (PathList [asc ''/pages/c'']) (asc ''(x'')
     = \<lparr>content = None, sourceUsed = None\<rparr>\<close>
proof -
  have fa: "daAdminRequest demo_deps
              (formatURL demo_deps (asc ''source'') (asc ''org'') (asc ''site'') (asc ''/pages/a'')
                 (asc ''html''))
              = Inl \<lparr>message = None\<rparr>"
    by (simp add: demo_deps_def asc_def)
  have fb: "fetchSourceDocument demo_deps (asc ''org'') (asc ''site'') (asc ''/pages/b'')
              = Inr (asc ''<p>no block</p>'')"
    by (simp add: fetchSourceDocument_def demo_deps_def dq_def asc_def)
  have fc: \<open>fetchSourceDocument demo_deps (asc ''org'') (asc ''site'') (asc ''/pages/c'')
              = Inr (asc ''<div class="hero"><p>A</p></div>'')\<close>
    by (simp add: fetchSourceDocument_def demo_deps_def dq_def asc_def)
  have pb: "parseBlockInstances throws_other no_upper (asc ''<p>no block</p>'') (asc ''hero'')
              = Inr []"
    by code_simp
  have pc: \<open>parseBlockInstances throws_other no_upper (asc ''<div class="hero"><p>A</p></div>'')
              (asc ''hero'') = Inr [([], asc ''<p>A</p>'')]\<close>
    by code_simp
  have px: \<open>parseBlockInstances throws_other no_upper (asc ''<div class="hero"><p>A</p></div>'')
              (asc ''(x'') = Inl \<lparr>message = Some (asc ''Invalid regular expression'')\<rparr>\<close>
    by code_simp
  note t = extractBlockContent_first_candidate
             [where d = demo_deps and other = throws_other and up = no_upper
                and org = "asc ''org''" and repo = "asc ''site''"]
  have sa: "skipped demo_deps throws_other no_upper (asc ''org'') (asc ''site'') (asc ''hero'')
              (asc ''/pages/a'')"
    using t [where q = "asc ''/pages/a''" and b = "asc ''hero''" and pre = "[]"
                and p = "[]" and post = "[]"] fa
    by blast
  have sb: "skipped demo_deps throws_other no_upper (asc ''org'') (asc ''site'') (asc ''hero'')
              (asc ''/pages/b'')"
    using t [where q = "asc ''/pages/b''" and b = "asc ''hero''" and pre = "[]"
                and p = "[]" and post = "[]"] fb pb
    by blast
  have sx: "skipped demo_deps throws_other no_upper (asc ''org'') (asc ''site'') (asc ''(x'')
              (asc ''/pages/c'')"
    using t [where q = "asc ''/pages/c''" and b = "asc ''(x''" and pre = "[]"
                and p = "[]" and post = "[]"] fc px
    by blast
  have s: "\<forall>q\<in>set [asc ''/pages/a'', asc ''/pages/b''].
             skipped demo_deps throws_other no_upper (asc ''org'') (asc ''site'') (asc ''hero'') q"
    using sa sb by simp
  have s': "\<forall>q\<in>set [asc ''/pages/c''].
             skipped demo_deps throws_other no_upper (asc ''org'') (asc ''site'') (asc ''(x'') q"
    using sx by simp
  have 1: \<open>extractBlockContent demo_deps throws_other no_upper (asc ''org'') (asc ''site'')
             (PathList ([asc ''/pages/a'', asc ''/pages/b''] @ asc ''/pages/c'' # [asc ''/pages/d'']))
             (asc ''hero'')
           = \<lparr>content = Some [([], asc ''<p>A</p>'')], sourceUsed = Some (asc ''/pages/c'')\<rparr>\<close>
    using t [where q = "[]" and b = "asc ''hero''" and pre = "[asc ''/pages/a'', asc ''/pages/b'']"
                and p = "asc ''/pages/c''" and post = "[asc ''/pages/d'']"] s fc pc
    by blast
  have 2: "extractBlockContent demo_deps throws_other no_upper (asc ''org'') (asc ''site'')
             (PathList [asc ''/pages/a'', asc ''/pages/b'']) (asc ''hero'')
           = \<lparr>content = None, sourceUsed = None\<rparr>"
    using t [where q = "[]" and b = "asc ''hero''" and pre = "[asc ''/pages/a'', asc ''/pages/b'']"
                and p = "[]" and post = "[]"] s
    by blast
  have 3: "extractBlockContent demo_deps throws_other no_upper (asc ''org'') (asc ''site'')
             (PathList [asc ''/pages/c'']) (asc ''(x'')
           = \<lparr>content = None, sourceUsed = None\<rparr>"
    using t [where q = "[]" and b = "asc ''(x''" and pre = "[asc ''/pages/c'']"
                and p = "[]" and post = "[]"] s'
    by blast
  from 1 2 3 px sx show ?thesis
    by simp
qed

section \<open>Extractor: the test for a captured variant\<close>

text \<open>
  Claim C1 on the page \<^verbatim>\<open><div class="hero constructor"> <p>x</p> </div>\<close>, block
  \<^verbatim>\<open>hero\<close>: the opening tag is matched, its variant is \<^verbatim>\<open>constructor\<close>, its close tag
  balances, and nothing is recorded, since the test for a captured variant reads the
  member \<^verbatim>\<open>constructor\<close> that every object inherits. With the class \<^verbatim>\<open>dark\<close> in its place
  the trimmed content is recorded, as it is for the nested page of the claim.
\<close>

theorem prototype_named_variant_not_recorded:
  "rx_matchAll (canonicalize up) (openTagRegex (asc ''hero'')) constructor_hero 0 = [(0, 30)]
   \<and> match_variant constructor_hero (asc ''hero'') 0 30 = asc ''constructor''
   \<and> scan_close constructor_hero 1 30 = Some 40
   \<and> truthy_prop [] (asc ''constructor'')
   \<and> process_match constructor_hero (asc ''hero'') 0 30 [] = []
   \<and> parseBlockInstances other up constructor_hero (asc ''hero'') = Inr []
   \<and> parseBlockInstances other up dark_hero (asc ''hero'') = Inr [(asc ''dark'', asc ''<p>x</p>'')]
   \<and> parseBlockInstances other up nested_hero (asc ''hero'')
       = Inr [(asc ''dark'', asc ''<div><span>X</span></div>'')]"
  by code_simp

text \<open>
  Claim C2 on the page \<^verbatim>\<open><div class="hero"></div><div class="hero"><p>A</p></div>\<close>, block
  \<^verbatim>\<open>hero\<close>: both instances have the empty variant, the first is captured with empty
  content, and the second is not skipped: it is scanned and its content replaces the
  capture of the first.
\<close>

theorem later_instance_replaces_empty_capture:
  "rx_matchAll (canonicalize up) (openTagRegex (asc ''hero'')) empty_then_filled 0
     = [(0, 18), (24, 18)]
   \<and> match_variant empty_then_filled (asc ''hero'') 0 18 = []
   \<and> match_variant empty_then_filled (asc ''hero'') 24 18 = []
   \<and> process_match empty_then_filled (asc ''hero'') 0 18 [] = [([], [])]
   \<and> process_match empty_then_filled (asc ''hero'') 24 18 [([], [])] = [([], asc ''<p>A</p>'')]
   \<and> parseBlockInstances other up empty_then_filled (asc ''hero'') = Inr [([], asc ''<p>A</p>'')]"
  by code_simp

end
